theory Spec2Isabelle
  imports Complex_Main
begin

section \<open>The statistics sensor of homeassistant/components/statistics/sensor.py\<close>

text \<open>
  The sensor keeps two bounded deques, \<open>states\<close> (the values) and \<open>ages\<close> (their
  timestamps), fed by state reports of a source entity, and publishes one statistical
  characteristic of the buffer.

  Conventions of the embedding:
  \<^item> a Python \<open>float\<close> is a \<open>real\<close>: the arithmetic is exact, and IEEE rounding, \<open>nan\<close> and
    \<open>inf\<close> are outside the model;
  \<^item> a \<open>datetime\<close> is its number of microseconds since the epoch and a \<open>timedelta\<close> its
    number of microseconds, both \<open>int\<close> (the resolution of Python's types);
  \<^item> an exception is a value of \<open>exn\<close>; a method that mutates the sensor returns the
    exception it raised, if any, with the sensor as the raise left it.
\<close>

subsection \<open>Values\<close>

datatype exn =
  ValueError | AssertionError | ZeroDivisionError | IndexError | TypeError
  | UnboundLocalError | AttributeError | StatisticsError

type_synonym datetime = int
type_synonym timedelta = int

definition total_seconds :: "timedelta \<Rightarrow> real" where
  "total_seconds d = real_of_int d / 1000000"

text \<open>An element of \<open>deque[float | bool]\<close>.\<close>

datatype sample = Num real | Bin bool

text \<open>How Python's arithmetic reads a sample: \<open>True\<close> is 1 and \<open>False\<close> is 0.\<close>

fun num :: "sample \<Rightarrow> real" where
  "num (Num x) = x"
| "num (Bin b) = (if b then 1 else 0)"

text \<open>
  \<open>StateType | datetime\<close>, the type of the published value and of the attributes.
  \<open>PyStrOfList l\<close> is the string \<open>str(l)\<close> of a list of floats \<open>l\<close>; the digits that Python
  prints for a float are not modelled.
\<close>

datatype pyvalue =
  PyNone | PyBool bool | PyInt int | PyFloat real | PyStr string
  | PyStrOfList "real list" | PyDatetime datetime

subsection \<open>Constants\<close>

definition STAT_AGE_COVERAGE_RATIO :: string where
  "STAT_AGE_COVERAGE_RATIO = ''age_coverage_ratio''"

definition STAT_BUFFER_USAGE_RATIO :: string where
  "STAT_BUFFER_USAGE_RATIO = ''buffer_usage_ratio''"

definition STAT_SOURCE_VALUE_VALID :: string where
  "STAT_SOURCE_VALUE_VALID = ''source_value_valid''"

datatype characteristic =
  STAT_AVERAGE_LINEAR | STAT_AVERAGE_STEP | STAT_AVERAGE_TIMELESS | STAT_CHANGE
  | STAT_CHANGE_SAMPLE | STAT_CHANGE_SECOND | STAT_COUNT | STAT_DATETIME_NEWEST
  | STAT_DATETIME_OLDEST | STAT_DISTANCE_95P | STAT_DISTANCE_99P | STAT_DISTANCE_ABSOLUTE
  | STAT_MEAN | STAT_MEDIAN | STAT_NOISINESS | STAT_QUANTILES | STAT_STANDARD_DEVIATION
  | STAT_TOTAL | STAT_VALUE_MAX | STAT_VALUE_MIN | STAT_VARIANCE

definition STATS_BINARY_SUPPORT :: "characteristic list" where
  "STATS_BINARY_SUPPORT = [STAT_AVERAGE_STEP, STAT_AVERAGE_TIMELESS, STAT_COUNT, STAT_MEAN]"

definition STATS_NOT_A_NUMBER :: "characteristic list" where
  "STATS_NOT_A_NUMBER = [STAT_DATETIME_NEWEST, STAT_DATETIME_OLDEST, STAT_QUANTILES]"

definition STATS_DATETIME :: "characteristic list" where
  "STATS_DATETIME = [STAT_DATETIME_NEWEST, STAT_DATETIME_OLDEST]"

text \<open>
  Modelled from the spec: the constants \<open>STATE_UNAVAILABLE\<close>, \<open>STATE_UNKNOWN\<close> and
  \<open>ATTR_UNIT_OF_MEASUREMENT\<close> of \<open>homeassistant.const\<close>, which is not among the sources;
  the spec names the two signals "unavailable" and "unknown".
\<close>

definition STATE_UNAVAILABLE :: string where
  "STATE_UNAVAILABLE = ''unavailable''"

definition STATE_UNKNOWN :: string where
  "STATE_UNKNOWN = ''unknown''"

definition ATTR_UNIT_OF_MEASUREMENT :: string where
  "ATTR_UNIT_OF_MEASUREMENT = ''unit_of_measurement''"

datatype quantile_method = exclusive | inclusive

subsection \<open>The state report and the sensor\<close>

text \<open>
  What the sensor reads of a \<open>homeassistant.core.State\<close>: \<open>state\<close> (a string, tested
  against \<open>None\<close> by the code), \<open>last_updated\<close> and the \<open>attributes\<close> dictionary.
\<close>

record State =
  state :: "string option"
  last_updated :: datetime
  state_attributes :: "string \<rightharpoonup> string"

text \<open>
  The fields of \<open>StatisticsSensor\<close>. The first seven are set by \<open>__init__\<close> and never
  assigned again; \<open>native_value\<close>, \<open>native_unit_of_measurement\<close> and \<open>available\<close> are
  \<open>_value\<close>, \<open>_unit_of_measurement\<close> and \<open>_available\<close> under the names of the
  properties that return them. \<open>update_listener\<close> is the instant of the pending wake-up.
  \<open>samples_max_buffer_size\<close> is the \<open>maxlen\<close> of both deques, which Python refuses when
  negative.
\<close>

record sensor =
  is_binary :: bool
  state_characteristic :: characteristic
  samples_max_buffer_size :: nat
  samples_max_age :: "timedelta option"
  precision :: int
  quantile_intervals :: int
  quantile_method :: quantile_method
  native_value :: pyvalue
  native_unit_of_measurement :: "string option"
  available :: bool
  states :: "sample list"
  ages :: "datetime list"
  attributes :: "string \<rightharpoonup> pyvalue"
  update_listener :: "datetime option"

text \<open>
  \<open>__init__\<close>. The caller passes \<open>is_binary\<close>, the domain test on the source entity id.
  \<open>getattr\<close> raises when the class has no method for the characteristic, which is so
  for a binary source outside \<open>STATS_BINARY_SUPPORT\<close>.
\<close>

definition init ::
  "bool \<Rightarrow> characteristic \<Rightarrow> nat \<Rightarrow> timedelta option \<Rightarrow> int \<Rightarrow> int \<Rightarrow> quantile_method
    \<Rightarrow> exn + sensor" where
  "init binary c maxlen max_age prec intervals method =
     (if binary \<and> \<not> List.member STATS_BINARY_SUPPORT c then Inl AttributeError
      else Inr \<lparr>is_binary = binary, state_characteristic = c,
        samples_max_buffer_size = maxlen, samples_max_age = max_age, precision = prec,
        quantile_intervals = intervals, quantile_method = method,
        native_value = PyNone, native_unit_of_measurement = None, available = False,
        states = [], ages = [],
        attributes = [STAT_AGE_COVERAGE_RATIO \<mapsto> PyNone,
          STAT_BUFFER_USAGE_RATIO \<mapsto> PyNone, STAT_SOURCE_VALUE_VALID \<mapsto> PyNone],
        update_listener = None\<rparr>)"

text \<open>\<open>extra_state_attributes\<close>: the attributes whose value is not \<open>None\<close>.\<close>

definition extra_state_attributes :: "sensor \<Rightarrow> (string \<rightharpoonup> pyvalue)" where
  "extra_state_attributes self =
     (\<lambda>key. case attributes self key of Some PyNone \<Rightarrow> None | r \<Rightarrow> r)"

text \<open>\<open>deque.append\<close> on a deque of the given \<open>maxlen\<close>: a full deque drops its oldest item.\<close>

definition deque_append :: "nat \<Rightarrow> 'a list \<Rightarrow> 'a \<Rightarrow> 'a list" where
  "deque_append maxlen xs x = (let ys = xs @ [x] in if maxlen < length ys then tl ys else ys)"

subsection \<open>Ingestion\<close>

text \<open>
  \<open>_derive_unit_of_measurement\<close>. \<open>not base_unit\<close> holds of \<open>None\<close> and of the empty
  string. The chain has no final \<open>else\<close>: were no branch taken, \<open>return unit\<close> would raise.
  U+00B2 is the superscript two.
\<close>

definition derive_unit_of_measurement :: "sensor \<Rightarrow> State \<Rightarrow> exn + string option" where
  "derive_unit_of_measurement self new_state =
     (let base_unit = state_attributes new_state ATTR_UNIT_OF_MEASUREMENT;
          c = state_characteristic self in
      if is_binary self \<and> List.member [STAT_AVERAGE_STEP, STAT_AVERAGE_TIMELESS, STAT_MEAN] c
      then Inr (Some ''%'')
      else if base_unit = None \<or> base_unit = Some [] then Inr None
      else if List.member [STAT_AVERAGE_LINEAR, STAT_AVERAGE_STEP, STAT_AVERAGE_TIMELESS,
          STAT_CHANGE, STAT_DISTANCE_95P, STAT_DISTANCE_99P, STAT_DISTANCE_ABSOLUTE,
          STAT_MEAN, STAT_MEDIAN, STAT_NOISINESS, STAT_STANDARD_DEVIATION, STAT_TOTAL,
          STAT_VALUE_MAX, STAT_VALUE_MIN] c
      then Inr base_unit
      else if List.member STATS_NOT_A_NUMBER c then Inr None
      else if c = STAT_COUNT then Inr None
      else if c = STAT_VARIANCE then Inr (Some (the base_unit @ [CHR 0xB2]))
      else if c = STAT_CHANGE_SAMPLE then Inr (Some (the base_unit @ ''/sample''))
      else if c = STAT_CHANGE_SECOND then Inr (Some (the base_unit @ ''/s''))
      else Inl UnboundLocalError)"

text \<open>
  \<open>_add_state_to_queue\<close>. \<open>py_float\<close> is Python's \<open>float\<close> on a string: \<open>Some x\<close> when it
  returns \<open>x\<close>, \<open>None\<close> when it raises \<open>ValueError\<close>. The \<open>assert\<close> of the binary branch
  raises \<open>AssertionError\<close>, which \<open>except ValueError\<close> does not catch.
\<close>

definition add_state_to_queue ::
  "(string \<Rightarrow> real option) \<Rightarrow> sensor \<Rightarrow> State \<Rightarrow> exn option \<times> sensor" where
  "add_state_to_queue py_float self new_state =
     (let self = self\<lparr>available := (state new_state \<noteq> Some STATE_UNAVAILABLE)\<rparr> in
      if state new_state = Some STATE_UNAVAILABLE then
        (None, self\<lparr>attributes := (attributes self)(STAT_SOURCE_VALUE_VALID \<mapsto> PyNone)\<rparr>)
      else if state new_state = Some STATE_UNKNOWN \<or> state new_state = None then
        (None, self\<lparr>attributes := (attributes self)(STAT_SOURCE_VALUE_VALID \<mapsto> PyBool False)\<rparr>)
      else
        (case (if is_binary self then
                 (if state new_state = Some ''on'' \<or> state new_state = Some ''off''
                  then Inr (Bin (state new_state = Some ''on''))
                  else Inl AssertionError)
               else (case py_float (the (state new_state)) of
                       Some x \<Rightarrow> Inr (Num x)
                     | None \<Rightarrow> Inl ValueError)) of
           Inl ValueError \<Rightarrow>
             (None, self\<lparr>attributes := (attributes self)(STAT_SOURCE_VALUE_VALID \<mapsto> PyBool False)\<rparr>)
         | Inl e \<Rightarrow> (Some e, self)
         | Inr v \<Rightarrow>
             (let self = self\<lparr>states := deque_append (samples_max_buffer_size self) (states self) v\<rparr>;
                  self = self\<lparr>ages := deque_append (samples_max_buffer_size self) (ages self)
                            (last_updated new_state)\<rparr>;
                  self = self\<lparr>attributes := (attributes self)(STAT_SOURCE_VALUE_VALID \<mapsto> PyBool True)\<rparr>
              in case derive_unit_of_measurement self new_state of
                   Inl e \<Rightarrow> (Some e, self)
                 | Inr unit \<Rightarrow> (None, self\<lparr>native_unit_of_measurement := unit\<rparr>))))"

subsection \<open>Python's arithmetic\<close>

text \<open>Running on while nothing was raised.\<close>

definition exn_bind :: "exn + 'a \<Rightarrow> ('a \<Rightarrow> exn + 'b) \<Rightarrow> exn + 'b" where
  "exn_bind r f = (case r of Inl e \<Rightarrow> Inl e | Inr x \<Rightarrow> f x)"

text \<open>\<open>xs[i]\<close>: a negative index counts from the end, an index out of range raises.\<close>

definition py_index :: "'a list \<Rightarrow> int \<Rightarrow> exn + 'a" where
  "py_index xs i =
     (if 0 \<le> i \<and> i < int (length xs) then Inr (xs ! nat i)
      else if i < 0 \<and> - int (length xs) \<le> i then Inr (xs ! nat (int (length xs) + i))
      else Inl IndexError)"

text \<open>\<open>a / b\<close> on floats.\<close>

definition py_div :: "real \<Rightarrow> real \<Rightarrow> exn + real" where
  "py_div a b = (if b = 0 then Inl ZeroDivisionError else Inr (a / b))"

text \<open>Rounding to the nearest integer, a tie to the even one, as \<open>round\<close> does.\<close>

definition round_half_even :: "real \<Rightarrow> int" where
  "round_half_even x =
     (let f = \<lfloor>x\<rfloor>; d = x - of_int f
      in if d < 1 / 2 then f else if 1 / 2 < d then f + 1 else if even f then f else f + 1)"

text \<open>\<open>round(x, ndigits)\<close> on a float and on an int.\<close>

definition py_round_float :: "real \<Rightarrow> int \<Rightarrow> real" where
  "py_round_float x ndigits =
     (if 0 \<le> ndigits
      then of_int (round_half_even (x * 10 ^ nat ndigits)) / 10 ^ nat ndigits
      else of_int (round_half_even (x / 10 ^ nat (- ndigits))) * 10 ^ nat (- ndigits))"

definition py_round_int :: "int \<Rightarrow> int \<Rightarrow> int" where
  "py_round_int i ndigits =
     (if 0 \<le> ndigits then i
      else round_half_even (of_int i / 10 ^ nat (- ndigits)) * 10 ^ nat (- ndigits))"

text \<open>
  \<open>round(value, ndigits)\<close> on a published value: a float gives a float, an int or a
  bool an int, and \<open>None\<close>, a string and a \<open>datetime\<close> raise \<open>TypeError\<close>.
\<close>

fun py_round :: "pyvalue \<Rightarrow> int \<Rightarrow> exn + pyvalue" where
  "py_round (PyFloat x) ndigits = Inr (PyFloat (py_round_float x ndigits))"
| "py_round (PyInt i) ndigits = Inr (PyInt (py_round_int i ndigits))"
| "py_round (PyBool b) ndigits = Inr (PyInt (py_round_int (if b then 1 else 0) ndigits))"
| "py_round _ ndigits = Inl TypeError"

text \<open>
  \<open>int(value)\<close>: a float is truncated towards zero. \<open>_update_value\<close> reaches it only with
  what \<open>round\<close> returned, an int or a float; the other equations are never used.
\<close>

fun py_int :: "pyvalue \<Rightarrow> exn + pyvalue" where
  "py_int (PyFloat x) = Inr (PyInt (if 0 \<le> x then \<lfloor>x\<rfloor> else \<lceil>x\<rceil>))"
| "py_int (PyInt i) = Inr (PyInt i)"
| "py_int (PyBool b) = Inr (PyInt (if b then 1 else 0))"
| "py_int (PyStr s) = Inl ValueError"
| "py_int (PyStrOfList l) = Inl ValueError"
| "py_int _ = Inl TypeError"

subsection \<open>The standard library's statistics module\<close>

text \<open>
  \<open>statistics.mean\<close>, \<open>median\<close>, \<open>variance\<close> and \<open>stdev\<close> as the library documents them:
  the arithmetic mean, the middle of the sorted data (the mean of the two middle items of
  an even number), the sample variance (the squared deviations from the mean, summed and
  divided by \<open>n - 1\<close>) and its square root. The sensor calls each on enough data points
  for it not to raise.
\<close>

definition py_mean :: "real list \<Rightarrow> real" where
  "py_mean xs = sum_list xs / real (length xs)"

definition py_median :: "real list \<Rightarrow> real" where
  "py_median xs =
     (let data = sort xs; n = length data
      in if odd n then data ! (n div 2)
         else (data ! (n div 2 - 1) + data ! (n div 2)) / 2)"

definition py_variance :: "real list \<Rightarrow> real" where
  "py_variance xs =
     (let xbar = py_mean xs
      in sum_list (map (\<lambda>x. (x - xbar)\<^sup>2) xs) / real (length xs - 1))"

definition py_stdev :: "real list \<Rightarrow> real" where
  "py_stdev xs = sqrt (py_variance xs)"

text \<open>The results of a comprehension, or the first exception one of them raised.\<close>

fun collect :: "(exn + 'a) list \<Rightarrow> exn + 'a list" where
  "collect [] = Inr []"
| "collect (r # rs) =
     (case r of Inl e \<Rightarrow> Inl e
      | Inr x \<Rightarrow> (case collect rs of Inl e \<Rightarrow> Inl e | Inr xs \<Rightarrow> Inr (x # xs)))"

text \<open>
  \<open>statistics.quantiles(data, n=n, method=method)\<close>: the \<open>i\<close>-th of the \<open>n - 1\<close> cut
  points, interpolated between two neighbours of the sorted data.
\<close>

definition quantile_inclusive :: "real list \<Rightarrow> int \<Rightarrow> int \<Rightarrow> exn + real" where
  "quantile_inclusive data n i =
     (let m = int (length data) - 1; j = (i * m) div n; delta = (i * m) mod n
      in exn_bind (py_index data j) (\<lambda>a.
         exn_bind (py_index data (j + 1)) (\<lambda>b.
         Inr ((a * of_int (n - delta) + b * of_int delta) / of_int n))))"

definition quantile_exclusive :: "real list \<Rightarrow> int \<Rightarrow> int \<Rightarrow> exn + real" where
  "quantile_exclusive data n i =
     (let ld = int (length data); m = ld + 1; j = (i * m) div n;
          j = (if j < 1 then 1 else if ld - 1 < j then ld - 1 else j);
          delta = i * m - j * n
      in exn_bind (py_index data (j - 1)) (\<lambda>a.
         exn_bind (py_index data j) (\<lambda>b.
         Inr ((a * of_int (n - delta) + b * of_int delta) / of_int n))))"

definition py_quantiles :: "real list \<Rightarrow> int \<Rightarrow> quantile_method \<Rightarrow> exn + real list" where
  "py_quantiles xs n method =
     (if n < 1 then Inl StatisticsError
      else let data = sort xs in
        if length data < 2 then Inl StatisticsError
        else (case method of
                inclusive \<Rightarrow> collect (map (quantile_inclusive data n) [1..n - 1])
              | exclusive \<Rightarrow> collect (map (quantile_exclusive data n) [1..n - 1])))"

text \<open>\<open>max\<close> and \<open>min\<close> of a sequence that is not empty.\<close>

definition py_max :: "real list \<Rightarrow> real" where
  "py_max xs = fold max (tl xs) (hd xs)"

definition py_min :: "real list \<Rightarrow> real" where
  "py_min xs = fold min (tl xs) (hd xs)"

subsection \<open>The characteristics of a numeric source\<close>

text \<open>The buffer's values as the arithmetic reads them.\<close>

definition floats :: "sensor \<Rightarrow> real list" where
  "floats self = map num (states self)"

text \<open>
  One turn of the loop of \<open>_stat_average_linear\<close>, \<open>_stat_average_step\<close> and
  \<open>_stat_binary_average_step\<close>: the area so far, plus the weight of step \<open>i\<close> times the
  seconds between \<open>ages[i - 1]\<close> and \<open>ages[i]\<close>.
\<close>

definition area_step ::
  "sensor \<Rightarrow> (nat \<Rightarrow> real) \<Rightarrow> nat \<Rightarrow> exn + real \<Rightarrow> exn + real" where
  "area_step self weight i acc =
     exn_bind acc (\<lambda>area.
     exn_bind (py_index (ages self) (int i)) (\<lambda>t.
     exn_bind (py_index (ages self) (int i - 1)) (\<lambda>t'.
     Inr (area + weight i * total_seconds (t - t')))))"

text \<open>\<open>(self.ages[-1] - self.ages[0]).total_seconds()\<close>\<close>

definition age_range_seconds :: "sensor \<Rightarrow> exn + real" where
  "age_range_seconds self =
     exn_bind (py_index (ages self) (- 1)) (\<lambda>newest.
     exn_bind (py_index (ages self) 0) (\<lambda>oldest.
     Inr (total_seconds (newest - oldest))))"

definition stat_average_linear :: "sensor \<Rightarrow> exn + pyvalue" where
  "stat_average_linear self =
     (if 2 \<le> length (states self) then
        exn_bind (fold (area_step self
            (\<lambda>i. 0.5 * (floats self ! i + floats self ! (i - 1))))
          [1..<length (states self)] (Inr 0)) (\<lambda>area.
        exn_bind (age_range_seconds self) (\<lambda>seconds.
        exn_bind (py_div area seconds) (\<lambda>r. Inr (PyFloat r))))
      else Inr PyNone)"

definition stat_average_step :: "sensor \<Rightarrow> exn + pyvalue" where
  "stat_average_step self =
     (if 2 \<le> length (states self) then
        exn_bind (fold (area_step self (\<lambda>i. floats self ! (i - 1)))
          [1..<length (states self)] (Inr 0)) (\<lambda>area.
        exn_bind (age_range_seconds self) (\<lambda>seconds.
        exn_bind (py_div area seconds) (\<lambda>r. Inr (PyFloat r))))
      else Inr PyNone)"

definition stat_mean :: "sensor \<Rightarrow> exn + pyvalue" where
  "stat_mean self =
     (if 0 < length (states self) then Inr (PyFloat (py_mean (floats self))) else Inr PyNone)"

definition stat_average_timeless :: "sensor \<Rightarrow> exn + pyvalue" where
  "stat_average_timeless self = stat_mean self"

definition stat_change :: "sensor \<Rightarrow> exn + pyvalue" where
  "stat_change self =
     (if 0 < length (states self)
      then Inr (PyFloat (last (floats self) - hd (floats self)))
      else Inr PyNone)"

definition stat_change_sample :: "sensor \<Rightarrow> exn + pyvalue" where
  "stat_change_sample self =
     (if 1 < length (states self)
      then Inr (PyFloat ((last (floats self) - hd (floats self))
                  / real (length (states self) - 1)))
      else Inr PyNone)"

definition stat_change_second :: "sensor \<Rightarrow> exn + pyvalue" where
  "stat_change_second self =
     (if 1 < length (states self) then
        exn_bind (age_range_seconds self) (\<lambda>seconds.
        if 0 < seconds
        then Inr (PyFloat ((last (floats self) - hd (floats self)) / seconds))
        else Inr PyNone)
      else Inr PyNone)"

definition stat_count :: "sensor \<Rightarrow> exn + pyvalue" where
  "stat_count self = Inr (PyInt (int (length (states self))))"

definition stat_datetime_newest :: "sensor \<Rightarrow> exn + pyvalue" where
  "stat_datetime_newest self =
     (if 0 < length (states self)
      then exn_bind (py_index (ages self) (- 1)) (\<lambda>t. Inr (PyDatetime t))
      else Inr PyNone)"

definition stat_datetime_oldest :: "sensor \<Rightarrow> exn + pyvalue" where
  "stat_datetime_oldest self =
     (if 0 < length (states self)
      then exn_bind (py_index (ages self) 0) (\<lambda>t. Inr (PyDatetime t))
      else Inr PyNone)"

definition stat_standard_deviation :: "sensor \<Rightarrow> exn + pyvalue" where
  "stat_standard_deviation self =
     (if 2 \<le> length (states self) then Inr (PyFloat (py_stdev (floats self)))
      else Inr PyNone)"

definition stat_distance_95_percent_of_values :: "sensor \<Rightarrow> exn + pyvalue" where
  "stat_distance_95_percent_of_values self =
     (if 2 \<le> length (states self) then Inr (PyFloat (2 * 1.96 * py_stdev (floats self)))
      else Inr PyNone)"

definition stat_distance_99_percent_of_values :: "sensor \<Rightarrow> exn + pyvalue" where
  "stat_distance_99_percent_of_values self =
     (if 2 \<le> length (states self) then Inr (PyFloat (2 * 2.58 * py_stdev (floats self)))
      else Inr PyNone)"

definition stat_distance_absolute :: "sensor \<Rightarrow> exn + pyvalue" where
  "stat_distance_absolute self =
     (if 0 < length (states self)
      then Inr (PyFloat (py_max (floats self) - py_min (floats self)))
      else Inr PyNone)"

definition stat_median :: "sensor \<Rightarrow> exn + pyvalue" where
  "stat_median self =
     (if 0 < length (states self) then Inr (PyFloat (py_median (floats self)))
      else Inr PyNone)"

definition stat_noisiness :: "sensor \<Rightarrow> exn + pyvalue" where
  "stat_noisiness self =
     (if 2 \<le> length (states self) then
        (let diff_sum = sum_list (map (\<lambda>(i, j). \<bar>j - i\<bar>) (zip (floats self) (tl (floats self))))
         in Inr (PyFloat (diff_sum / real (length (states self) - 1))))
      else Inr PyNone)"

definition stat_quantiles :: "sensor \<Rightarrow> exn + pyvalue" where
  "stat_quantiles self =
     (if quantile_intervals self < int (length (states self)) then
        exn_bind (py_quantiles (floats self) (quantile_intervals self) (quantile_method self))
          (\<lambda>qs. Inr (PyStrOfList (map (\<lambda>quantile. py_round_float quantile (precision self)) qs)))
      else Inr PyNone)"

definition stat_total :: "sensor \<Rightarrow> exn + pyvalue" where
  "stat_total self =
     (if 0 < length (states self) then Inr (PyFloat (sum_list (floats self))) else Inr PyNone)"

definition stat_value_max :: "sensor \<Rightarrow> exn + pyvalue" where
  "stat_value_max self =
     (if 0 < length (states self) then Inr (PyFloat (py_max (floats self))) else Inr PyNone)"

definition stat_value_min :: "sensor \<Rightarrow> exn + pyvalue" where
  "stat_value_min self =
     (if 0 < length (states self) then Inr (PyFloat (py_min (floats self))) else Inr PyNone)"

definition stat_variance :: "sensor \<Rightarrow> exn + pyvalue" where
  "stat_variance self =
     (if 2 \<le> length (states self) then Inr (PyFloat (py_variance (floats self)))
      else Inr PyNone)"

subsection \<open>The characteristics of a binary source\<close>

definition stat_binary_average_step :: "sensor \<Rightarrow> exn + pyvalue" where
  "stat_binary_average_step self =
     (if 2 \<le> length (states self) then
        exn_bind (fold (area_step self
            (\<lambda>i. if states self ! (i - 1) = Bin True then 1 else 0))
          [1..<length (states self)] (Inr 0)) (\<lambda>on_seconds.
        exn_bind (age_range_seconds self) (\<lambda>seconds.
        exn_bind (py_div 100 seconds) (\<lambda>r. Inr (PyFloat (r * on_seconds)))))
      else Inr PyNone)"

definition stat_binary_count :: "sensor \<Rightarrow> exn + pyvalue" where
  "stat_binary_count self = Inr (PyInt (int (length (states self))))"

definition stat_binary_mean :: "sensor \<Rightarrow> exn + pyvalue" where
  "stat_binary_mean self =
     (if 0 < length (states self)
      then Inr (PyFloat (100 / real (length (states self))
                  * real (length (filter (\<lambda>v. num v = 1) (states self)))))
      else Inr PyNone)"

definition stat_binary_average_timeless :: "sensor \<Rightarrow> exn + pyvalue" where
  "stat_binary_average_timeless self = stat_binary_mean self"

text \<open>
  \<open>_state_characteristic_fn\<close>, the method that \<open>__init__\<close> looked up by name:
  \<open>_stat_binary_<name>\<close> for a binary source, \<open>_stat_<name>\<close> otherwise.
\<close>

definition state_characteristic_fn :: "sensor \<Rightarrow> exn + pyvalue" where
  "state_characteristic_fn self =
     (if is_binary self then
        (case state_characteristic self of
           STAT_AVERAGE_STEP \<Rightarrow> stat_binary_average_step self
         | STAT_AVERAGE_TIMELESS \<Rightarrow> stat_binary_average_timeless self
         | STAT_COUNT \<Rightarrow> stat_binary_count self
         | STAT_MEAN \<Rightarrow> stat_binary_mean self
         | _ \<Rightarrow> Inl AttributeError)
      else
        (case state_characteristic self of
           STAT_AVERAGE_LINEAR \<Rightarrow> stat_average_linear self
         | STAT_AVERAGE_STEP \<Rightarrow> stat_average_step self
         | STAT_AVERAGE_TIMELESS \<Rightarrow> stat_average_timeless self
         | STAT_CHANGE \<Rightarrow> stat_change self
         | STAT_CHANGE_SAMPLE \<Rightarrow> stat_change_sample self
         | STAT_CHANGE_SECOND \<Rightarrow> stat_change_second self
         | STAT_COUNT \<Rightarrow> stat_count self
         | STAT_DATETIME_NEWEST \<Rightarrow> stat_datetime_newest self
         | STAT_DATETIME_OLDEST \<Rightarrow> stat_datetime_oldest self
         | STAT_DISTANCE_95P \<Rightarrow> stat_distance_95_percent_of_values self
         | STAT_DISTANCE_99P \<Rightarrow> stat_distance_99_percent_of_values self
         | STAT_DISTANCE_ABSOLUTE \<Rightarrow> stat_distance_absolute self
         | STAT_MEAN \<Rightarrow> stat_mean self
         | STAT_MEDIAN \<Rightarrow> stat_median self
         | STAT_NOISINESS \<Rightarrow> stat_noisiness self
         | STAT_QUANTILES \<Rightarrow> stat_quantiles self
         | STAT_STANDARD_DEVIATION \<Rightarrow> stat_standard_deviation self
         | STAT_TOTAL \<Rightarrow> stat_total self
         | STAT_VALUE_MAX \<Rightarrow> stat_value_max self
         | STAT_VALUE_MIN \<Rightarrow> stat_value_min self
         | STAT_VARIANCE \<Rightarrow> stat_variance self))"

subsection \<open>Purge and recompute\<close>

text \<open>
  The loop of \<open>_purge_old_states\<close>, with \<open>now\<close> the reading of the clock:
  \<open>while self.ages and (now - self.ages[0]) > max_age\<close>, pop the left of \<open>ages\<close>, then of
  \<open>states\<close>. \<open>popleft\<close> raises on an empty deque.
\<close>

fun purge_loop ::
  "datetime \<Rightarrow> timedelta \<Rightarrow> datetime list \<Rightarrow> sample list
    \<Rightarrow> exn option \<times> datetime list \<times> sample list" where
  "purge_loop now max_age [] vs = (None, [], vs)"
| "purge_loop now max_age (t # ts) vs =
     (if max_age < now - t then
        (case vs of
           [] \<Rightarrow> (Some IndexError, ts, [])
         | v # vs' \<Rightarrow> purge_loop now max_age ts vs')
      else (None, t # ts, vs))"

definition purge_old_states :: "datetime \<Rightarrow> timedelta \<Rightarrow> sensor \<Rightarrow> exn option \<times> sensor" where
  "purge_old_states now max_age self =
     (case purge_loop now max_age (ages self) (states self) of
        (e, ts, vs) \<Rightarrow> (e, self\<lparr>states := vs, ages := ts\<rparr>))"

text \<open>\<open>_next_to_purge_timestamp\<close>: a \<open>timedelta\<close> of zero is false.\<close>

definition next_to_purge_timestamp :: "sensor \<Rightarrow> datetime option" where
  "next_to_purge_timestamp self =
     (if ages self \<noteq> [] \<and> samples_max_age self \<noteq> None \<and> samples_max_age self \<noteq> Some 0
      then Some (hd (ages self) + the (samples_max_age self))
      else None)"

text \<open>\<open>_update_attributes\<close>\<close>

definition update_attributes :: "sensor \<Rightarrow> exn option \<times> sensor" where
  "update_attributes self =
     (case py_div (real (length (states self))) (real (samples_max_buffer_size self)) of
        Inl e \<Rightarrow> (Some e, self)
      | Inr usage \<Rightarrow>
          (let self = self\<lparr>attributes :=
                 (attributes self)(STAT_BUFFER_USAGE_RATIO \<mapsto> PyFloat (py_round_float usage 2))\<rparr>
           in if 1 \<le> length (states self) \<and> samples_max_age self \<noteq> None then
                (case exn_bind (age_range_seconds self) (\<lambda>seconds.
                        py_div seconds (total_seconds (the (samples_max_age self)))) of
                   Inl e \<Rightarrow> (Some e, self)
                 | Inr coverage \<Rightarrow>
                     (None, self\<lparr>attributes :=
                        (attributes self)(STAT_AGE_COVERAGE_RATIO \<mapsto>
                           PyFloat (py_round_float coverage 2))\<rparr>))
              else (None, self\<lparr>attributes :=
                      (attributes self)(STAT_AGE_COVERAGE_RATIO \<mapsto> PyNone)\<rparr>)))"

text \<open>
  \<open>_update_value\<close>. \<open>contextlib.suppress(TypeError)\<close> leaves \<open>value\<close> as the last
  assignment made it; any other exception leaves \<open>_value\<close> as it was.
\<close>

definition update_value :: "sensor \<Rightarrow> exn option \<times> sensor" where
  "update_value self =
     (case state_characteristic_fn self of
        Inl e \<Rightarrow> (Some e, self)
      | Inr v \<Rightarrow>
          (if \<not> List.member STATS_NOT_A_NUMBER (state_characteristic self) then
             (case py_round v (precision self) of
                Inl e \<Rightarrow>
                  (if e = TypeError then (None, self\<lparr>native_value := v\<rparr>) else (Some e, self))
              | Inr rounded \<Rightarrow>
                  (if precision self = 0 then
                     (case py_int rounded of
                        Inl e \<Rightarrow>
                          (if e = TypeError then (None, self\<lparr>native_value := rounded\<rparr>)
                           else (Some e, self))
                      | Inr i \<Rightarrow> (None, self\<lparr>native_value := i\<rparr>))
                   else (None, self\<lparr>native_value := rounded\<rparr>)))
           else (None, self\<lparr>native_value := v\<rparr>)))"

text \<open>Running the next method unless the one before raised.\<close>

definition and_then ::
  "exn option \<times> sensor \<Rightarrow> (sensor \<Rightarrow> exn option \<times> sensor) \<Rightarrow> exn option \<times> sensor" where
  "and_then r f = (case r of (None, self) \<Rightarrow> f self | (Some e, self) \<Rightarrow> (Some e, self))"

text \<open>
  \<open>async_update\<close> at the instant \<open>now\<close>: purge, attributes, value, and a wake-up at the
  next expiry in place of the pending one.
\<close>

definition async_update :: "datetime \<Rightarrow> sensor \<Rightarrow> exn option \<times> sensor" where
  "async_update now self =
     and_then
       (and_then
         (and_then
           (case samples_max_age self of
              None \<Rightarrow> (None, self)
            | Some max_age \<Rightarrow> purge_old_states now max_age self)
           update_attributes)
         update_value)
       (\<lambda>self. case next_to_purge_timestamp self of
                 None \<Rightarrow> (None, self)
               | Some t \<Rightarrow> (None, self\<lparr>update_listener := Some t\<rparr>))"

text \<open>
  What the publisher shows: the value, the unit, the availability and the attributes.
\<close>

definition snapshot ::
  "sensor \<Rightarrow> pyvalue \<times> string option \<times> bool \<times> (string \<rightharpoonup> pyvalue)" where
  "snapshot self =
     (native_value self, native_unit_of_measurement self, available self,
      extra_state_attributes self)"

text \<open>
  What happens to a sensor: a state report reaches \<open>_add_state_to_queue\<close>, the buffer is
  purged at some instant for some age, or \<open>async_update\<close> runs at some instant. An
  exception ends the handler and the sensor lives on as the handler left it.
\<close>

datatype event = Ingest State | Purge datetime timedelta | Update datetime

fun handle :: "(string \<Rightarrow> real option) \<Rightarrow> sensor \<Rightarrow> event \<Rightarrow> exn option \<times> sensor" where
  "handle py_float self (Ingest new_state) = add_state_to_queue py_float self new_state"
| "handle py_float self (Purge now max_age) = purge_old_states now max_age self"
| "handle py_float self (Update now) = async_update now self"

fun run :: "(string \<Rightarrow> real option) \<Rightarrow> sensor \<Rightarrow> event list \<Rightarrow> sensor" where
  "run py_float self [] = self"
| "run py_float self (ev # evs) = run py_float (snd (handle py_float self ev)) evs"

subsection \<open>The unit of measurement as the specification words it\<close>

text \<open>
  The table of the specification: a binary source with \<open>average_step\<close>,
  \<open>average_timeless\<close> or \<open>mean\<close> has the unit "%"; otherwise an absent declared unit
  gives an absent unit; \<open>count\<close>, the two datetime characteristics and \<open>quantiles\<close> have
  no unit; \<open>variance\<close>, \<open>change_sample\<close> and \<open>change_second\<close> append a suffix; every other
  characteristic passes the declared unit through.
\<close>

definition spec_unit :: "characteristic \<Rightarrow> bool \<Rightarrow> string option \<Rightarrow> string option" where
  "spec_unit c binary declared =
     (if binary \<and> (c = STAT_AVERAGE_STEP \<or> c = STAT_AVERAGE_TIMELESS \<or> c = STAT_MEAN)
      then Some ''%''
      else (case declared of
              None \<Rightarrow> None
            | Some u \<Rightarrow>
                (case c of
                   STAT_COUNT \<Rightarrow> None
                 | STAT_DATETIME_NEWEST \<Rightarrow> None
                 | STAT_DATETIME_OLDEST \<Rightarrow> None
                 | STAT_QUANTILES \<Rightarrow> None
                 | STAT_VARIANCE \<Rightarrow> Some (u @ [CHR 0xB2])
                 | STAT_CHANGE_SAMPLE \<Rightarrow> Some (u @ ''/sample'')
                 | STAT_CHANGE_SECOND \<Rightarrow> Some (u @ ''/s'')
                 | _ \<Rightarrow> Some u)))"

subsection \<open>The buffer invariant\<close>

text \<open>The two deques have one length, within \<open>maxlen\<close>.\<close>

definition buffer_ok :: "sensor \<Rightarrow> bool" where
  "buffer_ok self \<longleftrightarrow> length (states self) = length (ages self)
     \<and> length (states self) \<le> samples_max_buffer_size self"

subsection \<open>Population statistics as the specification words them\<close>




subsection \<open>Numeric values\<close>


section \<open>Properties\<close>

subsection \<open>Zero elapsed time\<close>

lemma fold_area_step_ok:
  "n \<le> length (ages self) \<Longrightarrow> m \<le> n \<Longrightarrow> 1 \<le> m \<Longrightarrow>
   \<exists>a'. fold (area_step self w) [m..<n] (Inr a) = Inr a'"
proof (induction "n - m" arbitrary: m a)
  case 0
  then show ?case by simp
next
  case (Suc k)
  then have mn: "m < n" by simp
  have idx: "py_index (ages self) (int m) = Inr (ages self ! m)"
    using Suc.prems mn by (simp add: py_index_def)
  have idx': "py_index (ages self) (int m - 1) = Inr (ages self ! (m - 1))"
    using Suc.prems mn by (auto simp add: py_index_def Let_def nat_diff_distrib')
  have step: "area_step self w m (Inr a) =
      Inr (a + w m * total_seconds (ages self ! m - ages self ! (m - 1)))"
    by (simp add: area_step_def exn_bind_def idx idx')
  have "[m..<n] = m # [Suc m..<n]" using mn by (simp add: upt_conv_Cons)
  moreover have "\<exists>a'. fold (area_step self w) [Suc m..<n]
      (Inr (a + w m * total_seconds (ages self ! m - ages self ! (m - 1)))) = Inr a'"
    using Suc.hyps(1)[of "Suc m"] Suc.hyps(2) Suc.prems mn by simp
  ultimately show ?case by (simp add: step)
qed

lemma age_range_replicate:
  "0 < n \<Longrightarrow> ages self = replicate n t \<Longrightarrow> age_range_seconds self = Inr 0"
  by (simp add: age_range_seconds_def py_index_def exn_bind_def total_seconds_def Let_def)

text \<open>
  C1. The claim: on a buffer of at least two samples whose timestamps are all equal,
  \<open>average_linear\<close>, \<open>average_step\<close> and the binary \<open>average_step\<close> yield an absent result.
  The code does not: none of the three tests the elapsed time, as
  \<open>_stat_change_second\<close> does, and each divides by it. On every such buffer each of the
  three raises \<open>ZeroDivisionError\<close>.
\<close>

theorem zero_elapsed_raises:
  assumes "2 \<le> length (states self)" and "ages self = replicate (length (states self)) t"
  shows "stat_average_linear self = Inl ZeroDivisionError
       \<and> stat_average_step self = Inl ZeroDivisionError
       \<and> stat_binary_average_step self = Inl ZeroDivisionError"
proof -
  let ?n = "length (states self)"
  have len: "?n \<le> length (ages self)" using assms(2) by (metis length_replicate order_refl)
  have pos: "0 < ?n" using assms(1) by linarith
  have range: "age_range_seconds self = Inr 0"
    by (rule age_range_replicate[OF pos assms(2)])
  have f: "\<And>w. \<exists>a. fold (area_step self w) [1..<?n] (Inr 0) = Inr a"
    using fold_area_step_ok[OF len, of 1] assms(1) by simp
  have 1: "stat_average_linear self = Inl ZeroDivisionError"
    using f[of "\<lambda>i. 0.5 * (floats self ! i + floats self ! (i - 1))"] assms(1)
    by (auto simp add: stat_average_linear_def exn_bind_def range py_div_def)
  have 2: "stat_average_step self = Inl ZeroDivisionError"
    using f[of "\<lambda>i. floats self ! (i - 1)"] assms(1)
    by (auto simp add: stat_average_step_def exn_bind_def range py_div_def)
  have 3: "stat_binary_average_step self = Inl ZeroDivisionError"
    using f[of "\<lambda>i. if states self ! (i - 1) = Bin True then 1 else 0"] assms(1)
    by (auto simp add: stat_binary_average_step_def exn_bind_def range py_div_def)
  show ?thesis using 1 2 3 by simp
qed

text \<open>
  Two reports of a numeric source, "1" and "2", with the same \<open>last_updated\<close>: the
  buffer they leave, and the three characteristics on it.
\<close>

lemma two_reports_buffer:
  "states (run (map_of [(''1'', 1), (''2'', 2)])
      (projr (init False STAT_AVERAGE_LINEAR 20 None 2 4 exclusive))
      [Ingest \<lparr>state = Some ''1'', last_updated = 5, state_attributes = Map.empty\<rparr>,
       Ingest \<lparr>state = Some ''2'', last_updated = 5, state_attributes = Map.empty\<rparr>])
     = [Num 1, Num 2]
   \<and> ages (run (map_of [(''1'', 1), (''2'', 2)])
      (projr (init False STAT_AVERAGE_LINEAR 20 None 2 4 exclusive))
      [Ingest \<lparr>state = Some ''1'', last_updated = 5, state_attributes = Map.empty\<rparr>,
       Ingest \<lparr>state = Some ''2'', last_updated = 5, state_attributes = Map.empty\<rparr>])
     = [5, 5]"
  by (simp add: init_def STATS_BINARY_SUPPORT_def add_state_to_queue_def Let_def
      STATE_UNAVAILABLE_def STATE_UNKNOWN_def deque_append_def
      derive_unit_of_measurement_def ATTR_UNIT_OF_MEASUREMENT_def)

theorem zero_elapsed_raises_witness:
  "stat_average_linear (run (map_of [(''1'', 1), (''2'', 2)])
      (projr (init False STAT_AVERAGE_LINEAR 20 None 2 4 exclusive))
      [Ingest \<lparr>state = Some ''1'', last_updated = 5, state_attributes = Map.empty\<rparr>,
       Ingest \<lparr>state = Some ''2'', last_updated = 5, state_attributes = Map.empty\<rparr>])
     = Inl ZeroDivisionError
   \<and> stat_average_step (run (map_of [(''1'', 1), (''2'', 2)])
      (projr (init False STAT_AVERAGE_LINEAR 20 None 2 4 exclusive))
      [Ingest \<lparr>state = Some ''1'', last_updated = 5, state_attributes = Map.empty\<rparr>,
       Ingest \<lparr>state = Some ''2'', last_updated = 5, state_attributes = Map.empty\<rparr>])
     = Inl ZeroDivisionError
   \<and> stat_binary_average_step (run (map_of [(''1'', 1), (''2'', 2)])
      (projr (init False STAT_AVERAGE_LINEAR 20 None 2 4 exclusive))
      [Ingest \<lparr>state = Some ''1'', last_updated = 5, state_attributes = Map.empty\<rparr>,
       Ingest \<lparr>state = Some ''2'', last_updated = 5, state_attributes = Map.empty\<rparr>])
     = Inl ZeroDivisionError"
  by (rule zero_elapsed_raises[where t = 5]) (simp_all only: two_reports_buffer, simp_all)

subsection \<open>The derived unit\<close>

text \<open>
  C7. The claim: the derived unit is the table \<open>spec_unit\<close> of the characteristic, the
  source kind and the declared unit. The code tests \<open>not base_unit\<close>, which also holds
  of the empty string: a declared unit that is the empty string is handled as an absent
  one, and is not passed through or given a suffix. With that reading of the declared
  unit the code computes the table, and never raises: the unit is a function of the
  three.
\<close>

theorem derive_unit_table:
  "derive_unit_of_measurement self new_state =
     Inr (spec_unit (state_characteristic self) (is_binary self)
       (if state_attributes new_state ATTR_UNIT_OF_MEASUREMENT = Some []
        then None else state_attributes new_state ATTR_UNIT_OF_MEASUREMENT))"
  by (cases "state_characteristic self";
      cases "state_attributes new_state ATTR_UNIT_OF_MEASUREMENT")
    (simp_all add: derive_unit_of_measurement_def spec_unit_def STATS_NOT_A_NUMBER_def Let_def)

text \<open>
  The claim fails at a numeric source with \<open>mean\<close> and the declared unit \<open>""\<close>: the
  table passes the empty string through, the code yields no unit.
\<close>

theorem derive_unit_empty_counterexample:
  "derive_unit_of_measurement (projr (init False STAT_MEAN 20 None 2 4 exclusive))
     \<lparr>state = Some ''1'', last_updated = 0,
      state_attributes = [ATTR_UNIT_OF_MEASUREMENT \<mapsto> '''']\<rparr>
   \<noteq> Inr (spec_unit STAT_MEAN False (Some ''''))"
  by (simp add: derive_unit_of_measurement_def spec_unit_def init_def STATS_BINARY_SUPPORT_def)

theorem derive_unit_table_witness:
  "derive_unit_of_measurement (projr (init False STAT_VARIANCE 20 None 2 4 exclusive))
     \<lparr>state = Some ''1'', last_updated = 0,
      state_attributes = [ATTR_UNIT_OF_MEASUREMENT \<mapsto> ''W'']\<rparr>
   = Inr (Some [CHR ''W'', CHR 0xB2])"
  using derive_unit_table[of "projr (init False STAT_VARIANCE 20 None 2 4 exclusive)"
     "\<lparr>state = Some ''1'', last_updated = 0,
      state_attributes = [ATTR_UNIT_OF_MEASUREMENT \<mapsto> ''W'']\<rparr>"]
  by (simp add: spec_unit_def init_def STATS_BINARY_SUPPORT_def)

subsection \<open>Ingestion, case by case\<close>

lemma add_state_unavailable:
  "state new_state = Some STATE_UNAVAILABLE \<Longrightarrow>
   add_state_to_queue py_float self new_state =
     (None, self\<lparr>available := False,
        attributes := (attributes self)(STAT_SOURCE_VALUE_VALID \<mapsto> PyNone)\<rparr>)"
  by (simp add: add_state_to_queue_def Let_def)

lemma add_state_unknown:
  "state new_state = Some STATE_UNKNOWN \<or> state new_state = None \<Longrightarrow>
   add_state_to_queue py_float self new_state =
     (None, self\<lparr>available := True,
        attributes := (attributes self)(STAT_SOURCE_VALUE_VALID \<mapsto> PyBool False)\<rparr>)"
  by (auto simp add: add_state_to_queue_def Let_def STATE_UNKNOWN_def STATE_UNAVAILABLE_def)

lemma add_state_not_a_float:
  "state new_state = Some v \<Longrightarrow> v \<noteq> STATE_UNAVAILABLE \<Longrightarrow> v \<noteq> STATE_UNKNOWN \<Longrightarrow>
   \<not> is_binary self \<Longrightarrow> py_float v = None \<Longrightarrow>
   add_state_to_queue py_float self new_state =
     (None, self\<lparr>available := True,
        attributes := (attributes self)(STAT_SOURCE_VALUE_VALID \<mapsto> PyBool False)\<rparr>)"
  by (simp add: add_state_to_queue_def Let_def)

lemma add_state_not_a_token:
  "state new_state = Some v \<Longrightarrow> v \<noteq> STATE_UNAVAILABLE \<Longrightarrow> v \<noteq> STATE_UNKNOWN \<Longrightarrow>
   is_binary self \<Longrightarrow> v \<noteq> ''on'' \<Longrightarrow> v \<noteq> ''off'' \<Longrightarrow>
   add_state_to_queue py_float self new_state = (Some AssertionError, self\<lparr>available := True\<rparr>)"
  by (simp add: add_state_to_queue_def Let_def)

lemma derive_unit_frame:
  "is_binary s = is_binary self \<Longrightarrow> state_characteristic s = state_characteristic self \<Longrightarrow>
   derive_unit_of_measurement s new_state = derive_unit_of_measurement self new_state"
  by (simp add: derive_unit_of_measurement_def)

lemma derive_unit_total:
  "\<exists>u. derive_unit_of_measurement self new_state = Inr u"
  by (cases "state_characteristic self")
    (simp_all add: derive_unit_of_measurement_def STATS_NOT_A_NUMBER_def Let_def)

lemma add_state_accepted:
  assumes "state new_state = Some v" "v \<noteq> STATE_UNAVAILABLE" "v \<noteq> STATE_UNKNOWN"
    and "if is_binary self then (v = ''on'' \<or> v = ''off'') \<and> x = Bin (v = ''on'')
         else py_float v = Some y \<and> x = Num y"
    and "derive_unit_of_measurement self new_state = Inr u"
  shows "add_state_to_queue py_float self new_state =
     (None, self\<lparr>available := True,
        states := deque_append (samples_max_buffer_size self) (states self) x,
        ages := deque_append (samples_max_buffer_size self) (ages self) (last_updated new_state),
        attributes := (attributes self)(STAT_SOURCE_VALUE_VALID \<mapsto> PyBool True),
        native_unit_of_measurement := u\<rparr>)"
proof -
  have d: "\<And>s. is_binary s = is_binary self \<Longrightarrow> state_characteristic s = state_characteristic self \<Longrightarrow>
     derive_unit_of_measurement s new_state = Inr u"
    using assms(5) derive_unit_frame by metis
  show ?thesis
  proof (cases "is_binary self")
    case True
    then show ?thesis using assms(1-4) by (simp add: add_state_to_queue_def Let_def d)
  next
    case False
    then show ?thesis using assms(1-4) by (simp add: add_state_to_queue_def Let_def d)
  qed
qed

lemma add_state_cases:
  obtains
    (unavailable) "add_state_to_queue py_float self new_state =
      (None, self\<lparr>available := False,
        attributes := (attributes self)(STAT_SOURCE_VALUE_VALID \<mapsto> PyNone)\<rparr>)"
  | (invalid) "add_state_to_queue py_float self new_state =
      (None, self\<lparr>available := True,
        attributes := (attributes self)(STAT_SOURCE_VALUE_VALID \<mapsto> PyBool False)\<rparr>)"
  | (assertion) "add_state_to_queue py_float self new_state =
      (Some AssertionError, self\<lparr>available := True\<rparr>)"
  | (accepted) x u where "add_state_to_queue py_float self new_state =
     (None, self\<lparr>available := True,
        states := deque_append (samples_max_buffer_size self) (states self) x,
        ages := deque_append (samples_max_buffer_size self) (ages self) (last_updated new_state),
        attributes := (attributes self)(STAT_SOURCE_VALUE_VALID \<mapsto> PyBool True),
        native_unit_of_measurement := u\<rparr>)"
proof (cases "state new_state")
  case None
  then show ?thesis using add_state_unknown[of new_state py_float self] invalid by simp
next
  case (Some v)
  obtain u where u: "derive_unit_of_measurement self new_state = Inr u"
    using derive_unit_total by blast
  consider "v = STATE_UNAVAILABLE" | "v = STATE_UNKNOWN"
    | "v \<noteq> STATE_UNAVAILABLE" "v \<noteq> STATE_UNKNOWN" by blast
  then show ?thesis
  proof cases
    case 1
    then show ?thesis using add_state_unavailable[of new_state py_float self] Some unavailable by simp
  next
    case 2
    then show ?thesis using add_state_unknown[of new_state py_float self] Some invalid by simp
  next
    case 3
    show ?thesis
    proof (cases "is_binary self")
      case True
      show ?thesis
      proof (cases "v = ''on'' \<or> v = ''off''")
        case True
        with \<open>is_binary self\<close> show ?thesis
          using add_state_accepted[OF Some 3, of self "Bin (v = ''on'')" py_float _ u] u accepted
          by simp
      next
        case False
        with \<open>is_binary self\<close> show ?thesis
          using add_state_not_a_token[OF Some 3, of self py_float] assertion by simp
      qed
    next
      case False
      show ?thesis
      proof (cases "py_float v")
        case None
        with False show ?thesis
          using add_state_not_a_float[OF Some 3, of self py_float] invalid by simp
      next
        case (Some y)
        with False show ?thesis
          using add_state_accepted[OF \<open>state new_state = Some v\<close> 3, of self "Num y" py_float y u]
            u accepted by simp
      qed
    qed
  qed
qed

subsection \<open>The lengths of the two sequences\<close>

lemma length_deque_append:
  "length xs \<le> n \<Longrightarrow> length (deque_append n xs x) = min n (Suc (length xs))"
  by (auto simp add: deque_append_def Let_def)

lemma add_state_buffer_ok:
  assumes "buffer_ok self"
  shows "buffer_ok (snd (add_state_to_queue py_float self new_state))
       \<and> samples_max_buffer_size (snd (add_state_to_queue py_float self new_state))
         = samples_max_buffer_size self"
  using assms
  by (cases rule: add_state_cases[of py_float self new_state])
     (simp_all add: buffer_ok_def length_deque_append)

lemma purge_loop_lengths:
  "length ts = length vs \<Longrightarrow>
   \<exists>ts' vs'. purge_loop now max_age ts vs = (None, ts', vs')
     \<and> length ts' = length vs' \<and> length ts' \<le> length ts"
proof (induction now max_age ts vs rule: purge_loop.induct)
  case (1 now max_age vs)
  then show ?case by simp
next
  case (2 now max_age t ts vs)
  then obtain v vs' where vs: "vs = v # vs'" by (cases vs) auto
  show ?case
  proof (cases "max_age < now - t")
    case True
    with 2 vs show ?thesis by fastforce
  next
    case False
    with 2 show ?thesis by simp
  qed
qed

lemma purge_buffer_ok:
  assumes "buffer_ok self"
  shows "buffer_ok (snd (purge_old_states now max_age self))
       \<and> samples_max_buffer_size (snd (purge_old_states now max_age self))
         = samples_max_buffer_size self
       \<and> fst (purge_old_states now max_age self) = None"
proof -
  have "length (ages self) = length (states self)" using assms by (simp add: buffer_ok_def)
  from purge_loop_lengths[OF this, of now max_age]
  obtain ts' vs' where "purge_loop now max_age (ages self) (states self) = (None, ts', vs')"
    "length ts' = length vs'" "length ts' \<le> length (ages self)" by blast
  then show ?thesis using assms by (simp add: purge_old_states_def buffer_ok_def)
qed

lemma update_attributes_buffer:
  "states (snd (update_attributes self)) = states self
   \<and> ages (snd (update_attributes self)) = ages self
   \<and> samples_max_buffer_size (snd (update_attributes self)) = samples_max_buffer_size self"
  by (simp add: update_attributes_def Let_def split: sum.split)

lemma update_value_buffer:
  "states (snd (update_value self)) = states self
   \<and> ages (snd (update_value self)) = ages self
   \<and> samples_max_buffer_size (snd (update_value self)) = samples_max_buffer_size self"
  by (simp add: update_value_def Let_def split: sum.split)

lemma and_then_snd:
  "P (snd r) \<Longrightarrow> (\<And>s. P s \<Longrightarrow> P (snd (f s))) \<Longrightarrow> P (snd (and_then r f))"
  by (cases r; cases "fst r") (auto simp add: and_then_def)

lemma async_update_buffer_ok:
  assumes "buffer_ok self"
  shows "buffer_ok (snd (async_update now self))
       \<and> samples_max_buffer_size (snd (async_update now self)) = samples_max_buffer_size self"
proof -
  let ?P = "\<lambda>s. buffer_ok s \<and> samples_max_buffer_size s = samples_max_buffer_size self"
  have p: "?P (snd (case samples_max_age self of None \<Rightarrow> (None, self)
      | Some max_age \<Rightarrow> purge_old_states now max_age self))"
    using assms purge_buffer_ok by (cases "samples_max_age self") auto
  have a: "\<And>s. ?P s \<Longrightarrow> ?P (snd (update_attributes s))"
    using update_attributes_buffer by (simp add: buffer_ok_def)
  have v: "\<And>s. ?P s \<Longrightarrow> ?P (snd (update_value s))"
    using update_value_buffer by (simp add: buffer_ok_def)
  have l: "\<And>s. ?P s \<Longrightarrow> ?P (snd (case next_to_purge_timestamp s of
                 None \<Rightarrow> (None, s)
               | Some t \<Rightarrow> (None, s\<lparr>update_listener := Some t\<rparr>)))"
    by (simp add: buffer_ok_def split: option.split)
  show ?thesis unfolding async_update_def
    by (rule and_then_snd[where P = ?P], rule and_then_snd[where P = ?P],
        rule and_then_snd[where P = ?P], rule p, erule a, erule v, erule l)
qed

lemma handle_buffer_ok:
  assumes "buffer_ok self"
  shows "buffer_ok (snd (handle py_float self ev))
       \<and> samples_max_buffer_size (snd (handle py_float self ev)) = samples_max_buffer_size self"
  using assms add_state_buffer_ok purge_buffer_ok async_update_buffer_ok
  by (cases ev) simp_all

lemma run_buffer_ok:
  "buffer_ok self \<Longrightarrow>
   buffer_ok (run py_float self evs)
     \<and> samples_max_buffer_size (run py_float self evs) = samples_max_buffer_size self"
proof (induction evs arbitrary: self)
  case Nil
  then show ?case by simp
next
  case (Cons ev evs)
  from handle_buffer_ok[OF Cons.prems, of py_float ev]
  have h: "buffer_ok (snd (handle py_float self ev))"
    "samples_max_buffer_size (snd (handle py_float self ev)) = samples_max_buffer_size self"
    by simp_all
  from Cons.IH[OF h(1)] h(2) show ?case by simp
qed

text \<open>
  C3. Whatever happens to a sensor whose buffer starts empty (state reports, purges,
  recomputations, in any order and whether or not a handler raises), the values and the
  timestamps have one length, and it is at most the configured \<open>maxlen\<close>.
\<close>

theorem buffer_lengths:
  assumes "states self = []" and "ages self = []"
  shows "length (states (run py_float self evs)) = length (ages (run py_float self evs))
       \<and> length (states (run py_float self evs)) \<le> samples_max_buffer_size self"
proof -
  have "buffer_ok self" using assms by (simp add: buffer_ok_def)
  from run_buffer_ok[OF this, of py_float evs] show ?thesis by (simp add: buffer_ok_def)
qed

lemma init_empty:
  "init b c n a p k m = Inr self \<Longrightarrow> states self = [] \<and> ages self = []
     \<and> samples_max_buffer_size self = n"
  by (auto simp add: init_def split: if_splits)

text \<open>
  A buffer of at most two samples after three reports and a purge: the invariant, and
  the buffer itself.
\<close>

theorem buffer_lengths_witness:
  "length (states (run (map_of [(''1'', 1), (''2'', 2)])
      (projr (init False STAT_MEAN 2 None 2 4 exclusive))
      [Ingest \<lparr>state = Some ''1'', last_updated = 1, state_attributes = Map.empty\<rparr>,
       Ingest \<lparr>state = Some ''2'', last_updated = 2, state_attributes = Map.empty\<rparr>,
       Ingest \<lparr>state = Some ''1'', last_updated = 3, state_attributes = Map.empty\<rparr>,
       Purge 10 7]))
   = length (ages (run (map_of [(''1'', 1), (''2'', 2)])
      (projr (init False STAT_MEAN 2 None 2 4 exclusive))
      [Ingest \<lparr>state = Some ''1'', last_updated = 1, state_attributes = Map.empty\<rparr>,
       Ingest \<lparr>state = Some ''2'', last_updated = 2, state_attributes = Map.empty\<rparr>,
       Ingest \<lparr>state = Some ''1'', last_updated = 3, state_attributes = Map.empty\<rparr>,
       Purge 10 7]))
   \<and> length (states (run (map_of [(''1'', 1), (''2'', 2)])
      (projr (init False STAT_MEAN 2 None 2 4 exclusive))
      [Ingest \<lparr>state = Some ''1'', last_updated = 1, state_attributes = Map.empty\<rparr>,
       Ingest \<lparr>state = Some ''2'', last_updated = 2, state_attributes = Map.empty\<rparr>,
       Ingest \<lparr>state = Some ''1'', last_updated = 3, state_attributes = Map.empty\<rparr>,
       Purge 10 7]))
   \<le> samples_max_buffer_size (projr (init False STAT_MEAN 2 None 2 4 exclusive))"
  by (rule buffer_lengths) (simp_all add: init_def STATS_BINARY_SUPPORT_def)

lemma three_reports_buffer:
  "states (run (map_of [(''1'', 1), (''2'', 2)])
      (projr (init False STAT_MEAN 2 None 2 4 exclusive))
      [Ingest \<lparr>state = Some ''1'', last_updated = 1, state_attributes = Map.empty\<rparr>,
       Ingest \<lparr>state = Some ''2'', last_updated = 2, state_attributes = Map.empty\<rparr>,
       Ingest \<lparr>state = Some ''1'', last_updated = 3, state_attributes = Map.empty\<rparr>,
       Purge 10 7]) = [Num 1]"
  by (simp add: init_def STATS_BINARY_SUPPORT_def add_state_to_queue_def Let_def
      STATE_UNAVAILABLE_def STATE_UNKNOWN_def deque_append_def
      derive_unit_of_measurement_def ATTR_UNIT_OF_MEASUREMENT_def purge_old_states_def)

subsection \<open>Readings that are not admitted\<close>

text \<open>
  C2. The claim: a reading whose value cannot be parsed to the source's kind leaves both
  sequences as they were, sets \<open>source_value_valid\<close> to false and raises nothing. This
  holds of a numeric source, for every string that is neither of the two signals (they
  are handled before the parse) and that \<open>float\<close> rejects. It does not hold of a binary
  source: there the code asserts that the value is "on" or "off", and for any other
  value both sequences stay as they were, but the \<open>AssertionError\<close> leaves the method
  (the handler catches \<open>ValueError\<close> only) and the attributes are as they were.
\<close>

theorem parse_failure:
  assumes "state new_state = Some v" and "v \<noteq> STATE_UNAVAILABLE" and "v \<noteq> STATE_UNKNOWN"
  shows "(\<not> is_binary self \<and> py_float v = None \<longrightarrow>
            fst (add_state_to_queue py_float self new_state) = None
          \<and> states (snd (add_state_to_queue py_float self new_state)) = states self
          \<and> ages (snd (add_state_to_queue py_float self new_state)) = ages self
          \<and> attributes (snd (add_state_to_queue py_float self new_state)) STAT_SOURCE_VALUE_VALID
              = Some (PyBool False))
       \<and> (is_binary self \<and> v \<noteq> ''on'' \<and> v \<noteq> ''off'' \<longrightarrow>
            fst (add_state_to_queue py_float self new_state) = Some AssertionError
          \<and> states (snd (add_state_to_queue py_float self new_state)) = states self
          \<and> ages (snd (add_state_to_queue py_float self new_state)) = ages self
          \<and> attributes (snd (add_state_to_queue py_float self new_state)) = attributes self)"
  using add_state_not_a_float[OF assms, of self py_float]
    add_state_not_a_token[OF assms, of self py_float]
  by auto

theorem parse_failure_witness:
  "fst (add_state_to_queue (map_of [(''1'', 1)])
      (projr (init False STAT_MEAN 20 None 2 4 exclusive))
      \<lparr>state = Some ''abc'', last_updated = 1, state_attributes = Map.empty\<rparr>) = None
   \<and> states (snd (add_state_to_queue (map_of [(''1'', 1)])
      (projr (init False STAT_MEAN 20 None 2 4 exclusive))
      \<lparr>state = Some ''abc'', last_updated = 1, state_attributes = Map.empty\<rparr>)) = []
   \<and> attributes (snd (add_state_to_queue (map_of [(''1'', 1)])
      (projr (init False STAT_MEAN 20 None 2 4 exclusive))
      \<lparr>state = Some ''abc'', last_updated = 1, state_attributes = Map.empty\<rparr>))
      STAT_SOURCE_VALUE_VALID = Some (PyBool False)
   \<and> fst (add_state_to_queue (map_of [(''1'', 1)])
      (projr (init True STAT_MEAN 20 None 2 4 exclusive))
      \<lparr>state = Some ''maybe'', last_updated = 1, state_attributes = Map.empty\<rparr>)
      = Some AssertionError
   \<and> states (snd (add_state_to_queue (map_of [(''1'', 1)])
      (projr (init True STAT_MEAN 20 None 2 4 exclusive))
      \<lparr>state = Some ''maybe'', last_updated = 1, state_attributes = Map.empty\<rparr>)) = []"
  using parse_failure[of "\<lparr>state = Some ''abc'', last_updated = 1, state_attributes = Map.empty\<rparr>"
      "''abc''" "projr (init False STAT_MEAN 20 None 2 4 exclusive)" "map_of [(''1'', 1)]"]
    parse_failure[of "\<lparr>state = Some ''maybe'', last_updated = 1, state_attributes = Map.empty\<rparr>"
      "''maybe''" "projr (init True STAT_MEAN 20 None 2 4 exclusive)" "map_of [(''1'', 1)]"]
  by (simp add: init_def STATS_BINARY_SUPPORT_def STATE_UNAVAILABLE_def STATE_UNKNOWN_def)

text \<open>
  The claim fails at a binary source and the value "maybe": the method raises, and
  \<open>source_value_valid\<close> is not false.
\<close>

theorem binary_token_counterexample:
  "fst (add_state_to_queue (map_of [(''1'', 1)])
      (projr (init True STAT_MEAN 20 None 2 4 exclusive))
      \<lparr>state = Some ''maybe'', last_updated = 1, state_attributes = Map.empty\<rparr>)
     = Some AssertionError
   \<and> attributes (snd (add_state_to_queue (map_of [(''1'', 1)])
      (projr (init True STAT_MEAN 20 None 2 4 exclusive))
      \<lparr>state = Some ''maybe'', last_updated = 1, state_attributes = Map.empty\<rparr>))
      STAT_SOURCE_VALUE_VALID \<noteq> Some (PyBool False)"
  by (simp add: add_state_to_queue_def init_def STATS_BINARY_SUPPORT_def STATE_UNAVAILABLE_def
      STATE_UNKNOWN_def Let_def STAT_SOURCE_VALUE_VALID_def STAT_AGE_COVERAGE_RATIO_def
      STAT_BUFFER_USAGE_RATIO_def)

text \<open>
  C10. A reading that is not admitted (no value, one of the signals "unavailable" and
  "unknown", or a value that fails to parse) leaves the published value and the unit of
  measurement as they were, and the buffer too: the unit is assigned only after the
  append.
\<close>

theorem rejected_reading_frame:
  assumes "state new_state = None \<or> state new_state = Some STATE_UNAVAILABLE
         \<or> state new_state = Some STATE_UNKNOWN
         \<or> (\<exists>v. state new_state = Some v \<and>
               (if is_binary self then v \<noteq> ''on'' \<and> v \<noteq> ''off'' else py_float v = None))"
  shows "native_value (snd (add_state_to_queue py_float self new_state)) = native_value self
       \<and> native_unit_of_measurement (snd (add_state_to_queue py_float self new_state))
           = native_unit_of_measurement self
       \<and> states (snd (add_state_to_queue py_float self new_state)) = states self
       \<and> ages (snd (add_state_to_queue py_float self new_state)) = ages self"
  using assms
proof (elim disjE exE conjE)
  assume "state new_state = None"
  then show ?thesis using add_state_unknown[of new_state py_float self] by simp
next
  assume "state new_state = Some STATE_UNAVAILABLE"
  then show ?thesis using add_state_unavailable[of new_state py_float self] by simp
next
  assume "state new_state = Some STATE_UNKNOWN"
  then show ?thesis using add_state_unknown[of new_state py_float self] by simp
next
  fix v
  assume v: "state new_state = Some v"
    and c: "if is_binary self then v \<noteq> ''on'' \<and> v \<noteq> ''off'' else py_float v = None"
  show ?thesis
  proof (cases "v = STATE_UNAVAILABLE")
    case True
    then show ?thesis using v add_state_unavailable[of new_state py_float self] by simp
  next
    case na: False
    show ?thesis
    proof (cases "v = STATE_UNKNOWN")
      case True
      then show ?thesis using v add_state_unknown[of new_state py_float self] by simp
    next
      case nk: False
      show ?thesis
      proof (cases "is_binary self")
        case True
        then have "v \<noteq> ''on''" "v \<noteq> ''off''" using c by simp_all
        from add_state_not_a_token[OF v na nk True this, of py_float] show ?thesis by simp
      next
        case False
        then have "py_float v = None" using c by simp
        from add_state_not_a_float[OF v na nk False, of py_float] this show ?thesis by simp
      qed
    qed
  qed
qed

theorem rejected_reading_frame_witness:
  "native_unit_of_measurement (snd (add_state_to_queue (map_of [(''1'', 1)])
      ((projr (init False STAT_MEAN 20 None 2 4 exclusive))
         \<lparr>native_value := PyFloat 3, native_unit_of_measurement := Some ''W''\<rparr>)
      \<lparr>state = Some ''abc'', last_updated = 1,
        state_attributes = [ATTR_UNIT_OF_MEASUREMENT \<mapsto> ''V'']\<rparr>)) = Some ''W''
   \<and> native_value (snd (add_state_to_queue (map_of [(''1'', 1)])
      ((projr (init False STAT_MEAN 20 None 2 4 exclusive))
         \<lparr>native_value := PyFloat 3, native_unit_of_measurement := Some ''W''\<rparr>)
      \<lparr>state = Some ''abc'', last_updated = 1,
        state_attributes = [ATTR_UNIT_OF_MEASUREMENT \<mapsto> ''V'']\<rparr>)) = PyFloat 3"
  using rejected_reading_frame[of
      "\<lparr>state = Some ''abc'', last_updated = 1,
        state_attributes = [ATTR_UNIT_OF_MEASUREMENT \<mapsto> ''V'']\<rparr>"
      "(projr (init False STAT_MEAN 20 None 2 4 exclusive))
         \<lparr>native_value := PyFloat 3, native_unit_of_measurement := Some ''W''\<rparr>"
      "map_of [(''1'', 1)]"]
  by (simp add: init_def STATS_BINARY_SUPPORT_def)

text \<open>No reading changes the published value.\<close>

lemma add_state_native_value:
  "native_value (snd (add_state_to_queue py_float self new_state)) = native_value self"
  by (cases rule: add_state_cases[of py_float self new_state]) simp_all

subsection \<open>Purging by age\<close>

lemma purge_loop_prefix:
  "length ts = length vs \<Longrightarrow>
   purge_loop now max_age ts vs =
     (None, dropWhile (\<lambda>t. max_age < now - t) ts,
      drop (length (takeWhile (\<lambda>t. max_age < now - t) ts)) vs)"
proof (induction now max_age ts vs rule: purge_loop.induct)
  case (1 now max_age vs)
  then show ?case by simp
next
  case (2 now max_age t ts vs)
  then obtain v vs' where vs: "vs = v # vs'" by (cases vs) auto
  show ?case
  proof (cases "max_age < now - t")
    case True
    with 2 vs show ?thesis by simp
  next
    case False
    then show ?thesis by simp
  qed
qed

lemma dropWhile_sorted_fresh:
  "sorted ts \<Longrightarrow> list_all (\<lambda>t. now - t \<le> (max_age :: int)) (dropWhile (\<lambda>t. max_age < now - t) ts)"
proof (induction ts)
  case Nil
  then show ?case by simp
next
  case (Cons t ts)
  show ?case
  proof (cases "max_age < now - t")
    case True
    with Cons show ?thesis by simp
  next
    case False
    have "\<forall>t' \<in> set ts. t \<le> t'" using Cons.prems by simp
    then have "\<forall>t' \<in> set ts. now - t' \<le> max_age" using False by fastforce
    with False show ?thesis by (simp add: list_all_iff)
  qed
qed

lemma async_update_buffer:
  "states (snd (async_update now self)) =
     states (snd (case samples_max_age self of None \<Rightarrow> (None, self)
            | Some max_age \<Rightarrow> purge_old_states now max_age self))
   \<and> ages (snd (async_update now self)) =
     ages (snd (case samples_max_age self of None \<Rightarrow> (None, self)
            | Some max_age \<Rightarrow> purge_old_states now max_age self))"
proof -
  let ?p = "case samples_max_age self of None \<Rightarrow> (None, self)
            | Some max_age \<Rightarrow> purge_old_states now max_age self"
  let ?P = "\<lambda>s. states s = states (snd ?p) \<and> ages s = ages (snd ?p)"
  have a: "\<And>s. ?P s \<Longrightarrow> ?P (snd (update_attributes s))"
    using update_attributes_buffer by simp
  have v: "\<And>s. ?P s \<Longrightarrow> ?P (snd (update_value s))"
    using update_value_buffer by simp
  have l: "\<And>s. ?P s \<Longrightarrow> ?P (snd (case next_to_purge_timestamp s of
                 None \<Rightarrow> (None, s)
               | Some t \<Rightarrow> (None, s\<lparr>update_listener := Some t\<rparr>)))"
    by (simp split: option.split)
  show ?thesis unfolding async_update_def
    by (rule and_then_snd[where P = ?P], rule and_then_snd[where P = ?P],
        rule and_then_snd[where P = ?P], simp, erule a, erule v, erule l)
qed

text \<open>
  C4. The claim: with a maximal age configured, a recomputation at the instant \<open>now\<close>
  leaves no sample with \<open>now - t > max_age\<close>, the purge removing exactly the longest
  prefix of expired pairs. The second half holds as it stands: the loop stops at the
  first timestamp that has not expired, so what remains of \<open>ages\<close> is \<open>dropWhile\<close> of the
  test, and \<open>states\<close> loses as many items. The first half needs the timestamps in
  non-decreasing order: an expired sample behind a fresh one is not reached.
\<close>

theorem purge_longest_prefix:
  assumes "samples_max_age self = Some max_age" and "length (ages self) = length (states self)"
  shows "ages (snd (async_update now self)) = dropWhile (\<lambda>t. max_age < now - t) (ages self)
       \<and> states (snd (async_update now self))
           = drop (length (takeWhile (\<lambda>t. max_age < now - t) (ages self))) (states self)
       \<and> (sorted (ages self) \<longrightarrow>
            list_all (\<lambda>t. now - t \<le> max_age) (ages (snd (async_update now self))))"
proof -
  have p: "purge_old_states now max_age self =
      (None, self\<lparr>states := drop (length (takeWhile (\<lambda>t. max_age < now - t) (ages self))) (states self),
                  ages := dropWhile (\<lambda>t. max_age < now - t) (ages self)\<rparr>)"
    using purge_loop_prefix[OF assms(2), of now max_age] by (simp add: purge_old_states_def)
  have "ages (snd (async_update now self)) = dropWhile (\<lambda>t. max_age < now - t) (ages self)"
    and "states (snd (async_update now self))
           = drop (length (takeWhile (\<lambda>t. max_age < now - t) (ages self))) (states self)"
    using async_update_buffer[of now self] assms(1) p by simp_all
  then show ?thesis using dropWhile_sorted_fresh[of "ages self" now max_age] by simp
qed

text \<open>
  Three reports in order, then a recomputation: the oldest sample goes, nothing that has
  expired stays.
\<close>

lemma in_order_buffer:
  "states (run (map_of [(''1'', 1), (''2'', 2)])
      (projr (init False STAT_COUNT 20 (Some 50) 2 4 exclusive))
      [Ingest \<lparr>state = Some ''1'', last_updated = 0, state_attributes = Map.empty\<rparr>,
       Ingest \<lparr>state = Some ''2'', last_updated = 60, state_attributes = Map.empty\<rparr>,
       Ingest \<lparr>state = Some ''1'', last_updated = 100, state_attributes = Map.empty\<rparr>])
     = [Num 1, Num 2, Num 1]
   \<and> ages (run (map_of [(''1'', 1), (''2'', 2)])
      (projr (init False STAT_COUNT 20 (Some 50) 2 4 exclusive))
      [Ingest \<lparr>state = Some ''1'', last_updated = 0, state_attributes = Map.empty\<rparr>,
       Ingest \<lparr>state = Some ''2'', last_updated = 60, state_attributes = Map.empty\<rparr>,
       Ingest \<lparr>state = Some ''1'', last_updated = 100, state_attributes = Map.empty\<rparr>])
     = [0, 60, 100]
   \<and> samples_max_age (run (map_of [(''1'', 1), (''2'', 2)])
      (projr (init False STAT_COUNT 20 (Some 50) 2 4 exclusive))
      [Ingest \<lparr>state = Some ''1'', last_updated = 0, state_attributes = Map.empty\<rparr>,
       Ingest \<lparr>state = Some ''2'', last_updated = 60, state_attributes = Map.empty\<rparr>,
       Ingest \<lparr>state = Some ''1'', last_updated = 100, state_attributes = Map.empty\<rparr>])
     = Some 50"
  by (simp add: init_def STATS_BINARY_SUPPORT_def add_state_to_queue_def Let_def
      STATE_UNAVAILABLE_def STATE_UNKNOWN_def deque_append_def
      derive_unit_of_measurement_def ATTR_UNIT_OF_MEASUREMENT_def STATS_NOT_A_NUMBER_def)

theorem purge_longest_prefix_witness:
  "ages (snd (async_update 100 (run (map_of [(''1'', 1), (''2'', 2)])
      (projr (init False STAT_COUNT 20 (Some 50) 2 4 exclusive))
      [Ingest \<lparr>state = Some ''1'', last_updated = 0, state_attributes = Map.empty\<rparr>,
       Ingest \<lparr>state = Some ''2'', last_updated = 60, state_attributes = Map.empty\<rparr>,
       Ingest \<lparr>state = Some ''1'', last_updated = 100, state_attributes = Map.empty\<rparr>])))
     = [60, 100]
   \<and> states (snd (async_update 100 (run (map_of [(''1'', 1), (''2'', 2)])
      (projr (init False STAT_COUNT 20 (Some 50) 2 4 exclusive))
      [Ingest \<lparr>state = Some ''1'', last_updated = 0, state_attributes = Map.empty\<rparr>,
       Ingest \<lparr>state = Some ''2'', last_updated = 60, state_attributes = Map.empty\<rparr>,
       Ingest \<lparr>state = Some ''1'', last_updated = 100, state_attributes = Map.empty\<rparr>])))
     = [Num 2, Num 1]
   \<and> list_all (\<lambda>t. 100 - t \<le> 50)
       (ages (snd (async_update 100 (run (map_of [(''1'', 1), (''2'', 2)])
      (projr (init False STAT_COUNT 20 (Some 50) 2 4 exclusive))
      [Ingest \<lparr>state = Some ''1'', last_updated = 0, state_attributes = Map.empty\<rparr>,
       Ingest \<lparr>state = Some ''2'', last_updated = 60, state_attributes = Map.empty\<rparr>,
       Ingest \<lparr>state = Some ''1'', last_updated = 100, state_attributes = Map.empty\<rparr>]))))"
proof -
  let ?s = "run (map_of [(''1'', 1), (''2'', 2)])
      (projr (init False STAT_COUNT 20 (Some 50) 2 4 exclusive))
      [Ingest \<lparr>state = Some ''1'', last_updated = 0, state_attributes = Map.empty\<rparr>,
       Ingest \<lparr>state = Some ''2'', last_updated = 60, state_attributes = Map.empty\<rparr>,
       Ingest \<lparr>state = Some ''1'', last_updated = 100, state_attributes = Map.empty\<rparr>]"
  have b: "states ?s = [Num 1, Num 2, Num 1]" "ages ?s = [0, 60, 100]"
    "samples_max_age ?s = Some 50"
    using in_order_buffer by blast+
  have "length (ages ?s) = length (states ?s)" by (simp only: b) simp
  from purge_longest_prefix[OF b(3) this, of 100] show ?thesis
    by (simp only: b) simp
qed

text \<open>
  The claim fails when a report carries an older \<open>last_updated\<close> than the one before
  it (the backfill from the recorder runs while the listener is registered): the sample
  of instant 0 is behind the sample of instant 100 and survives a recomputation at 100
  with a maximal age of 50.
\<close>

lemma out_of_order_buffer:
  "states (run (map_of [(''1'', 1), (''2'', 2)])
      (projr (init False STAT_COUNT 20 (Some 50) 2 4 exclusive))
      [Ingest \<lparr>state = Some ''1'', last_updated = 100, state_attributes = Map.empty\<rparr>,
       Ingest \<lparr>state = Some ''2'', last_updated = 0, state_attributes = Map.empty\<rparr>])
     = [Num 1, Num 2]
   \<and> ages (run (map_of [(''1'', 1), (''2'', 2)])
      (projr (init False STAT_COUNT 20 (Some 50) 2 4 exclusive))
      [Ingest \<lparr>state = Some ''1'', last_updated = 100, state_attributes = Map.empty\<rparr>,
       Ingest \<lparr>state = Some ''2'', last_updated = 0, state_attributes = Map.empty\<rparr>])
     = [100, 0]
   \<and> samples_max_age (run (map_of [(''1'', 1), (''2'', 2)])
      (projr (init False STAT_COUNT 20 (Some 50) 2 4 exclusive))
      [Ingest \<lparr>state = Some ''1'', last_updated = 100, state_attributes = Map.empty\<rparr>,
       Ingest \<lparr>state = Some ''2'', last_updated = 0, state_attributes = Map.empty\<rparr>])
     = Some 50"
  by (simp add: init_def STATS_BINARY_SUPPORT_def add_state_to_queue_def Let_def
      STATE_UNAVAILABLE_def STATE_UNKNOWN_def deque_append_def
      derive_unit_of_measurement_def ATTR_UNIT_OF_MEASUREMENT_def STATS_NOT_A_NUMBER_def)

theorem purge_out_of_order_counterexample:
  "ages (snd (async_update 100 (run (map_of [(''1'', 1), (''2'', 2)])
      (projr (init False STAT_COUNT 20 (Some 50) 2 4 exclusive))
      [Ingest \<lparr>state = Some ''1'', last_updated = 100, state_attributes = Map.empty\<rparr>,
       Ingest \<lparr>state = Some ''2'', last_updated = 0, state_attributes = Map.empty\<rparr>])))
     = [100, 0]
   \<and> \<not> list_all (\<lambda>t. 100 - t \<le> 50)
       (ages (snd (async_update 100 (run (map_of [(''1'', 1), (''2'', 2)])
      (projr (init False STAT_COUNT 20 (Some 50) 2 4 exclusive))
      [Ingest \<lparr>state = Some ''1'', last_updated = 100, state_attributes = Map.empty\<rparr>,
       Ingest \<lparr>state = Some ''2'', last_updated = 0, state_attributes = Map.empty\<rparr>]))))"
proof -
  let ?s = "run (map_of [(''1'', 1), (''2'', 2)])
      (projr (init False STAT_COUNT 20 (Some 50) 2 4 exclusive))
      [Ingest \<lparr>state = Some ''1'', last_updated = 100, state_attributes = Map.empty\<rparr>,
       Ingest \<lparr>state = Some ''2'', last_updated = 0, state_attributes = Map.empty\<rparr>]"
  have b: "states ?s = [Num 1, Num 2]" "ages ?s = [100, 0]" "samples_max_age ?s = Some 50"
    using out_of_order_buffer by blast+
  have "ages (snd (async_update 100 ?s)) = ages (snd (purge_old_states 100 50 ?s))"
    using async_update_buffer[of 100 ?s] by (simp only: b) simp
  also have "\<dots> = [100, 0]" by (simp only: purge_old_states_def b) simp
  finally show ?thesis by simp
qed

subsection \<open>Quantiles\<close>







text \<open>
  Five samples and four intervals, as \<open>statistics.quantiles([1, 2, 3, 4, 5], n=4)\<close>
  computes them, and Python's rounding on some values.
\<close>

lemma upto_1_3: "[1..(3::int)] = [1, 2, 3]"
  by (simp add: upto_rec1)


lemma five_quantiles_inclusive:
  "py_quantiles [1, 2, 3, 4, 5] 4 inclusive = Inr [2, 3, 4]"
  by (simp add: py_quantiles_def quantile_inclusive_def py_index_def exn_bind_def Let_def upto_1_3)



subsection \<open>Mean, median, variance and standard deviation\<close>












subsection \<open>What a recomputation reads\<close>

lemmas stat_defs =
  stat_average_linear_def stat_average_step_def stat_average_timeless_def stat_change_def
  stat_change_sample_def stat_change_second_def stat_count_def stat_datetime_newest_def
  stat_datetime_oldest_def stat_distance_95_percent_of_values_def
  stat_distance_99_percent_of_values_def stat_distance_absolute_def stat_mean_def
  stat_median_def stat_noisiness_def stat_quantiles_def stat_standard_deviation_def
  stat_total_def stat_value_max_def stat_value_min_def stat_variance_def
  stat_binary_average_step_def stat_binary_average_timeless_def stat_binary_count_def
  stat_binary_mean_def

lemma area_step_frame:
  "area_step (self\<lparr>native_value := v\<rparr>) = area_step self"
  "area_step (self\<lparr>attributes := a\<rparr>) = area_step self"
  "area_step (self\<lparr>update_listener := l\<rparr>) = area_step self"
  by (intro ext, simp add: area_step_def)+

lemma age_range_frame:
  "age_range_seconds (self\<lparr>native_value := v\<rparr>) = age_range_seconds self"
  "age_range_seconds (self\<lparr>attributes := a\<rparr>) = age_range_seconds self"
  "age_range_seconds (self\<lparr>update_listener := l\<rparr>) = age_range_seconds self"
  by (simp_all add: age_range_seconds_def)

lemma floats_frame:
  "floats (self\<lparr>native_value := v\<rparr>) = floats self"
  "floats (self\<lparr>attributes := a\<rparr>) = floats self"
  "floats (self\<lparr>update_listener := l\<rparr>) = floats self"
  by (simp_all add: floats_def)

lemma stat_frame_value:
  "stat_average_linear (self\<lparr>native_value := v\<rparr>) = stat_average_linear self"
  "stat_average_step (self\<lparr>native_value := v\<rparr>) = stat_average_step self"
  "stat_average_timeless (self\<lparr>native_value := v\<rparr>) = stat_average_timeless self"
  "stat_change (self\<lparr>native_value := v\<rparr>) = stat_change self"
  "stat_change_sample (self\<lparr>native_value := v\<rparr>) = stat_change_sample self"
  "stat_change_second (self\<lparr>native_value := v\<rparr>) = stat_change_second self"
  "stat_count (self\<lparr>native_value := v\<rparr>) = stat_count self"
  "stat_datetime_newest (self\<lparr>native_value := v\<rparr>) = stat_datetime_newest self"
  "stat_datetime_oldest (self\<lparr>native_value := v\<rparr>) = stat_datetime_oldest self"
  "stat_distance_95_percent_of_values (self\<lparr>native_value := v\<rparr>) = stat_distance_95_percent_of_values self"
  "stat_distance_99_percent_of_values (self\<lparr>native_value := v\<rparr>) = stat_distance_99_percent_of_values self"
  "stat_distance_absolute (self\<lparr>native_value := v\<rparr>) = stat_distance_absolute self"
  "stat_mean (self\<lparr>native_value := v\<rparr>) = stat_mean self"
  "stat_median (self\<lparr>native_value := v\<rparr>) = stat_median self"
  "stat_noisiness (self\<lparr>native_value := v\<rparr>) = stat_noisiness self"
  "stat_quantiles (self\<lparr>native_value := v\<rparr>) = stat_quantiles self"
  "stat_standard_deviation (self\<lparr>native_value := v\<rparr>) = stat_standard_deviation self"
  "stat_total (self\<lparr>native_value := v\<rparr>) = stat_total self"
  "stat_value_max (self\<lparr>native_value := v\<rparr>) = stat_value_max self"
  "stat_value_min (self\<lparr>native_value := v\<rparr>) = stat_value_min self"
  "stat_variance (self\<lparr>native_value := v\<rparr>) = stat_variance self"
  "stat_binary_average_step (self\<lparr>native_value := v\<rparr>) = stat_binary_average_step self"
  "stat_binary_average_timeless (self\<lparr>native_value := v\<rparr>) = stat_binary_average_timeless self"
  "stat_binary_count (self\<lparr>native_value := v\<rparr>) = stat_binary_count self"
  "stat_binary_mean (self\<lparr>native_value := v\<rparr>) = stat_binary_mean self"
  by (simp_all add: stat_defs floats_frame area_step_frame age_range_frame cong: if_cong)

lemma stat_frame_attributes:
  "stat_average_linear (self\<lparr>attributes := a\<rparr>) = stat_average_linear self"
  "stat_average_step (self\<lparr>attributes := a\<rparr>) = stat_average_step self"
  "stat_average_timeless (self\<lparr>attributes := a\<rparr>) = stat_average_timeless self"
  "stat_change (self\<lparr>attributes := a\<rparr>) = stat_change self"
  "stat_change_sample (self\<lparr>attributes := a\<rparr>) = stat_change_sample self"
  "stat_change_second (self\<lparr>attributes := a\<rparr>) = stat_change_second self"
  "stat_count (self\<lparr>attributes := a\<rparr>) = stat_count self"
  "stat_datetime_newest (self\<lparr>attributes := a\<rparr>) = stat_datetime_newest self"
  "stat_datetime_oldest (self\<lparr>attributes := a\<rparr>) = stat_datetime_oldest self"
  "stat_distance_95_percent_of_values (self\<lparr>attributes := a\<rparr>) = stat_distance_95_percent_of_values self"
  "stat_distance_99_percent_of_values (self\<lparr>attributes := a\<rparr>) = stat_distance_99_percent_of_values self"
  "stat_distance_absolute (self\<lparr>attributes := a\<rparr>) = stat_distance_absolute self"
  "stat_mean (self\<lparr>attributes := a\<rparr>) = stat_mean self"
  "stat_median (self\<lparr>attributes := a\<rparr>) = stat_median self"
  "stat_noisiness (self\<lparr>attributes := a\<rparr>) = stat_noisiness self"
  "stat_quantiles (self\<lparr>attributes := a\<rparr>) = stat_quantiles self"
  "stat_standard_deviation (self\<lparr>attributes := a\<rparr>) = stat_standard_deviation self"
  "stat_total (self\<lparr>attributes := a\<rparr>) = stat_total self"
  "stat_value_max (self\<lparr>attributes := a\<rparr>) = stat_value_max self"
  "stat_value_min (self\<lparr>attributes := a\<rparr>) = stat_value_min self"
  "stat_variance (self\<lparr>attributes := a\<rparr>) = stat_variance self"
  "stat_binary_average_step (self\<lparr>attributes := a\<rparr>) = stat_binary_average_step self"
  "stat_binary_average_timeless (self\<lparr>attributes := a\<rparr>) = stat_binary_average_timeless self"
  "stat_binary_count (self\<lparr>attributes := a\<rparr>) = stat_binary_count self"
  "stat_binary_mean (self\<lparr>attributes := a\<rparr>) = stat_binary_mean self"
  by (simp_all add: stat_defs floats_frame area_step_frame age_range_frame cong: if_cong)

lemma stat_frame_listener:
  "stat_average_linear (self\<lparr>update_listener := l\<rparr>) = stat_average_linear self"
  "stat_average_step (self\<lparr>update_listener := l\<rparr>) = stat_average_step self"
  "stat_average_timeless (self\<lparr>update_listener := l\<rparr>) = stat_average_timeless self"
  "stat_change (self\<lparr>update_listener := l\<rparr>) = stat_change self"
  "stat_change_sample (self\<lparr>update_listener := l\<rparr>) = stat_change_sample self"
  "stat_change_second (self\<lparr>update_listener := l\<rparr>) = stat_change_second self"
  "stat_count (self\<lparr>update_listener := l\<rparr>) = stat_count self"
  "stat_datetime_newest (self\<lparr>update_listener := l\<rparr>) = stat_datetime_newest self"
  "stat_datetime_oldest (self\<lparr>update_listener := l\<rparr>) = stat_datetime_oldest self"
  "stat_distance_95_percent_of_values (self\<lparr>update_listener := l\<rparr>) = stat_distance_95_percent_of_values self"
  "stat_distance_99_percent_of_values (self\<lparr>update_listener := l\<rparr>) = stat_distance_99_percent_of_values self"
  "stat_distance_absolute (self\<lparr>update_listener := l\<rparr>) = stat_distance_absolute self"
  "stat_mean (self\<lparr>update_listener := l\<rparr>) = stat_mean self"
  "stat_median (self\<lparr>update_listener := l\<rparr>) = stat_median self"
  "stat_noisiness (self\<lparr>update_listener := l\<rparr>) = stat_noisiness self"
  "stat_quantiles (self\<lparr>update_listener := l\<rparr>) = stat_quantiles self"
  "stat_standard_deviation (self\<lparr>update_listener := l\<rparr>) = stat_standard_deviation self"
  "stat_total (self\<lparr>update_listener := l\<rparr>) = stat_total self"
  "stat_value_max (self\<lparr>update_listener := l\<rparr>) = stat_value_max self"
  "stat_value_min (self\<lparr>update_listener := l\<rparr>) = stat_value_min self"
  "stat_variance (self\<lparr>update_listener := l\<rparr>) = stat_variance self"
  "stat_binary_average_step (self\<lparr>update_listener := l\<rparr>) = stat_binary_average_step self"
  "stat_binary_average_timeless (self\<lparr>update_listener := l\<rparr>) = stat_binary_average_timeless self"
  "stat_binary_count (self\<lparr>update_listener := l\<rparr>) = stat_binary_count self"
  "stat_binary_mean (self\<lparr>update_listener := l\<rparr>) = stat_binary_mean self"
  by (simp_all add: stat_defs floats_frame area_step_frame age_range_frame cong: if_cong)

lemma characteristic_frame:
  "state_characteristic_fn (self\<lparr>native_value := v\<rparr>) = state_characteristic_fn self"
  "state_characteristic_fn (self\<lparr>attributes := a\<rparr>) = state_characteristic_fn self"
  "state_characteristic_fn (self\<lparr>update_listener := l\<rparr>) = state_characteristic_fn self"
  by (simp_all add: state_characteristic_fn_def stat_frame_value stat_frame_attributes
      stat_frame_listener cong: characteristic.case_cong)

subsection \<open>Recomputing twice\<close>

lemma map_upd_again: "m(a \<mapsto> x, b \<mapsto> y, a \<mapsto> x, b \<mapsto> y) = m(a \<mapsto> x, b \<mapsto> y)"
  by (rule ext) simp

lemma update_attributes_idem:
  "update_attributes (snd (update_attributes self)) = update_attributes self"
  by (auto simp add: update_attributes_def Let_def age_range_frame map_upd_again
      split: sum.splits)

lemma update_attributes_value:
  "update_attributes (self\<lparr>native_value := v\<rparr>) =
     (fst (update_attributes self), (snd (update_attributes self))\<lparr>native_value := v\<rparr>)"
  by (auto simp add: update_attributes_def Let_def age_range_frame split: sum.splits)

lemma update_attributes_listener:
  "update_attributes (self\<lparr>update_listener := l\<rparr>) =
     (fst (update_attributes self), (snd (update_attributes self))\<lparr>update_listener := l\<rparr>)"
  by (auto simp add: update_attributes_def Let_def age_range_frame split: sum.splits)

lemma update_value_shape:
  "\<exists>e v. update_value self = (e, self\<lparr>native_value := v\<rparr>)
     \<and> (\<forall>s. state_characteristic_fn s = state_characteristic_fn self
            \<longrightarrow> state_characteristic s = state_characteristic self
            \<longrightarrow> precision s = precision self
            \<longrightarrow> update_value s = (e, if e = None then s\<lparr>native_value := v\<rparr> else s))"
proof (cases "state_characteristic_fn self")
  case (Inl e)
  then have "update_value self = (Some e, self\<lparr>native_value := native_value self\<rparr>)"
    by (simp add: update_value_def)
  moreover have "\<And>s. state_characteristic_fn s = state_characteristic_fn self
      \<Longrightarrow> update_value s = (Some e, s)" using Inl by (simp add: update_value_def)
  ultimately show ?thesis by fastforce
next
  case (Inr r)
  define w where "w =
     (if \<not> List.member STATS_NOT_A_NUMBER (state_characteristic self) then
             (case py_round r (precision self) of
                Inl e \<Rightarrow> (if e = TypeError then (None, r) else (Some e, r))
              | Inr rounded \<Rightarrow>
                  (if precision self = 0 then
                     (case py_int rounded of
                        Inl e \<Rightarrow> (if e = TypeError then (None, rounded) else (Some e, r))
                      | Inr i \<Rightarrow> (None, i))
                   else (None, rounded)))
           else (None, r))"
  have "\<And>s. state_characteristic_fn s = state_characteristic_fn self
      \<Longrightarrow> state_characteristic s = state_characteristic self
      \<Longrightarrow> precision s = precision self
      \<Longrightarrow> update_value s = (fst w, if fst w = None then s\<lparr>native_value := snd w\<rparr> else s)"
    using Inr unfolding w_def update_value_def
    by (simp split: sum.split)
  then have w: "\<And>s. state_characteristic_fn s = state_characteristic_fn self
      \<Longrightarrow> state_characteristic s = state_characteristic self
      \<Longrightarrow> precision s = precision self
      \<Longrightarrow> update_value s = (fst w, if fst w = None then s\<lparr>native_value := snd w\<rparr> else s)" .
  show ?thesis
  proof (cases "fst w")
    case None
    with w[of self] w show ?thesis
      by (intro exI[of _ None] exI[of _ "snd w"]) simp
  next
    case (Some a)
    with w[of self] w show ?thesis
      by (intro exI[of _ "Some a"] exI[of _ "native_value self"]) simp
  qed
qed

lemma purge_loop_idem:
  "purge_loop now max_age ts vs = (None, ts', vs') \<Longrightarrow>
   purge_loop now max_age ts' vs' = (None, ts', vs')"
proof (induction now max_age ts vs rule: purge_loop.induct)
  case (1 now max_age vs)
  then show ?case by simp
next
  case (2 now max_age t ts vs)
  show ?case
  proof (cases "max_age < now - t")
    case True
    with 2 show ?thesis by (cases vs) simp_all
  next
    case False
    with 2 show ?thesis by auto
  qed
qed

lemma next_to_purge_frame:
  "next_to_purge_timestamp (self\<lparr>native_value := v\<rparr>) = next_to_purge_timestamp self"
  "next_to_purge_timestamp (self\<lparr>attributes := a\<rparr>) = next_to_purge_timestamp self"
  "next_to_purge_timestamp (self\<lparr>update_listener := l\<rparr>) = next_to_purge_timestamp self"
  by (simp_all add: next_to_purge_timestamp_def)

lemma update_attributes_only:
  "snd (update_attributes self) = self\<lparr>attributes := attributes (snd (update_attributes self))\<rparr>"
  by (simp add: update_attributes_def Let_def split: sum.split)

lemma config_frame:
  "samples_max_age (snd (update_attributes self)) = samples_max_age self"
  "samples_max_age (snd (update_value self)) = samples_max_age self"
  by (simp_all add: update_attributes_def update_value_def Let_def split: sum.split)

lemma recompute_tail_idem:
  fixes self :: sensor
  defines "tail \<equiv> \<lambda>s. and_then (and_then (update_attributes s) update_value)
       (\<lambda>self. case next_to_purge_timestamp self of
                 None \<Rightarrow> (None, self)
               | Some t \<Rightarrow> (None, self\<lparr>update_listener := Some t\<rparr>))"
  shows "tail (snd (tail self)) = tail self"
proof -
  obtain eA sA where A: "update_attributes self = (eA, sA)" by fastforce
  have A2: "update_attributes sA = (eA, sA)" using update_attributes_idem[of self] A by simp
  show ?thesis
  proof (cases eA)
    case (Some e)
    then show ?thesis using A A2 by (simp add: tail_def and_then_def)
  next
    case None
    from update_value_shape[of sA] obtain eV v where
      V: "update_value sA = (eV, sA\<lparr>native_value := v\<rparr>)"
      and V': "\<And>s. state_characteristic_fn s = state_characteristic_fn sA
            \<Longrightarrow> state_characteristic s = state_characteristic sA
            \<Longrightarrow> precision s = precision sA
            \<Longrightarrow> update_value s = (eV, if eV = None then s\<lparr>native_value := v\<rparr> else s)"
      by blast
    let ?sV = "sA\<lparr>native_value := v\<rparr>"
    have AV: "update_attributes ?sV = (None, ?sV)"
      using update_attributes_value[where self = sA and v = v] A2 None by simp
    have VV: "update_value ?sV = (eV, ?sV)"
      using V'[of ?sV] by (simp add: characteristic_frame)
    show ?thesis
    proof (cases eV)
      case (Some e)
      then show ?thesis using A None V AV VV by (simp add: tail_def and_then_def)
    next
      case eV: None
      show ?thesis
      proof (cases "next_to_purge_timestamp ?sV")
        case None
        then show ?thesis using A \<open>eA = None\<close> V eV AV VV
          by (simp add: tail_def and_then_def)
      next
        case (Some t)
        let ?sL = "?sV\<lparr>update_listener := Some t\<rparr>"
        have 1: "tail self = (None, ?sL)"
          using A \<open>eA = None\<close> V eV Some by (simp add: tail_def and_then_def)
        have AL: "update_attributes ?sL = (None, ?sL)"
          using update_attributes_listener[where self = ?sV and l = "Some t"] AV by simp
        have VL: "update_value ?sL = (None, ?sL)"
          using V'[of ?sL] eV by (simp add: characteristic_frame)
        have NL: "next_to_purge_timestamp ?sL = Some t"
          using Some by (simp add: next_to_purge_frame)
        have "tail ?sL = (None, ?sL)"
          using AL VL NL by (simp add: tail_def and_then_def)
        with 1 show ?thesis by simp
      qed
    qed
  qed
qed

lemma and_then_None: "and_then (None, s) f = f s"
  by (simp add: and_then_def)

text \<open>
  C9. On a sensor whose two sequences have one length (as they have on every sensor
  that started empty), a second recomputation at the same instant, with no report in
  between, changes nothing: it raises what the first raised, if anything, and leaves the
  whole sensor, so also the snapshot, as the first left it.
\<close>

theorem recompute_idempotent:
  assumes "length (ages self) = length (states self)"
  shows "async_update now (snd (async_update now self)) = async_update now self
       \<and> snapshot (snd (async_update now (snd (async_update now self))))
           = snapshot (snd (async_update now self))"
proof -
  let ?L = "\<lambda>self. case next_to_purge_timestamp self of
                 None \<Rightarrow> (None, self)
               | Some t \<Rightarrow> (None, self\<lparr>update_listener := Some t\<rparr>)"
  let ?tail = "\<lambda>s. and_then (and_then (update_attributes s) update_value) ?L"
  have tail_frame: "states (snd (?tail s)) = states s \<and> ages (snd (?tail s)) = ages s
      \<and> samples_max_age (snd (?tail s)) = samples_max_age s" for s
  proof -
    let ?P = "\<lambda>t. states t = states s \<and> ages t = ages s
      \<and> samples_max_age t = samples_max_age s"
    have a: "?P (snd (update_attributes s))"
      using update_attributes_buffer[of s] config_frame(1)[of s] by simp
    have v: "\<And>t. ?P t \<Longrightarrow> ?P (snd (update_value t))"
      using update_value_buffer config_frame(2) by simp
    have l: "\<And>t. ?P t \<Longrightarrow> ?P (snd (?L t))" by (simp split: option.split)
    show ?thesis
      by (rule and_then_snd[where P = ?P], rule and_then_snd[where P = ?P], rule a, erule v,
          erule l)
  qed
  have idem: "?tail (snd (?tail s)) = ?tail s" for s
    using recompute_tail_idem[of s] by simp
  have twice: "async_update now (snd (async_update now self)) = async_update now self"
  proof (cases "samples_max_age self")
    case None
    then have 1: "async_update now self = ?tail self"
      by (simp add: async_update_def and_then_None)
    have "samples_max_age (snd (?tail self)) = None" using tail_frame[of self] None by simp
    then have "async_update now (snd (?tail self)) = ?tail (snd (?tail self))"
      by (simp add: async_update_def and_then_None)
    with 1 idem[of self] show ?thesis by simp
  next
    case (Some m)
    obtain ts' vs' where p: "purge_loop now m (ages self) (states self) = (None, ts', vs')"
      using purge_loop_lengths[OF assms] by blast
    let ?sp = "self\<lparr>states := vs', ages := ts'\<rparr>"
    have 1: "async_update now self = ?tail ?sp"
      using Some p by (simp add: async_update_def and_then_None purge_old_states_def)
    let ?s1 = "snd (?tail ?sp)"
    have f: "states ?s1 = vs'" "ages ?s1 = ts'" "samples_max_age ?s1 = Some m"
      using tail_frame[of ?sp] Some by simp_all
    have "purge_old_states now m ?s1 = (None, ?s1\<lparr>states := states ?s1, ages := ages ?s1\<rparr>)"
      unfolding purge_old_states_def f using purge_loop_idem[OF p] by simp
    then have "purge_old_states now m ?s1 = (None, ?s1)" by simp
    then have "async_update now ?s1 = ?tail ?s1"
      using f(3) by (simp add: async_update_def and_then_None)
    with 1 idem[of ?sp] show ?thesis by simp
  qed
  then show ?thesis by simp
qed

text \<open>Three samples, a maximal age of 50, two recomputations at the instant 100.\<close>

theorem recompute_idempotent_witness:
  "async_update 100 (snd (async_update 100
      ((projr (init False STAT_MEAN 20 (Some 50) 2 4 exclusive))
        \<lparr>states := [Num 1, Num 2, Num 1], ages := [0, 60, 100]\<rparr>)))
   = async_update 100 ((projr (init False STAT_MEAN 20 (Some 50) 2 4 exclusive))
        \<lparr>states := [Num 1, Num 2, Num 1], ages := [0, 60, 100]\<rparr>)
   \<and> snapshot (snd (async_update 100 (snd (async_update 100
      ((projr (init False STAT_MEAN 20 (Some 50) 2 4 exclusive))
        \<lparr>states := [Num 1, Num 2, Num 1], ages := [0, 60, 100]\<rparr>)))))
   = snapshot (snd (async_update 100 ((projr (init False STAT_MEAN 20 (Some 50) 2 4 exclusive))
        \<lparr>states := [Num 1, Num 2, Num 1], ages := [0, 60, 100]\<rparr>)))"
  by (rule recompute_idempotent) simp

text \<open>
  The same recomputation, evaluated: the sample of instant 0 is purged and the mean of
  the other two is published.
\<close>

lemma recompute_example:
  "native_value (snd (async_update 100 ((projr (init False STAT_MEAN 20 (Some 50) 2 4 exclusive))
        \<lparr>states := [Num 1, Num 2, Num 1], ages := [0, 60, 100]\<rparr>))) = PyFloat (3 / 2)"
  by (simp add: async_update_def and_then_def purge_old_states_def update_attributes_def
      update_value_def state_characteristic_fn_def stat_mean_def py_mean_def floats_def
      init_def STATS_BINARY_SUPPORT_def STATS_NOT_A_NUMBER_def py_div_def exn_bind_def
      age_range_seconds_def py_index_def total_seconds_def next_to_purge_timestamp_def
      py_round_float_def round_half_even_def Let_def)

subsection \<open>Rounding the published value\<close>




lemma py_int_rounded: "py_int (PyFloat (of_int n)) = Inr (PyInt n)"
  by simp



end
